theory Spec2Isabelle
  imports Main "HOL-Library.Product_Lexorder" "HOL-Library.Multiset"
begin

section \<open>JSON documents and the Python primitives the dashboard uses\<close>

text \<open>
  Every value \<^verbatim>\<open>app.py\<close> handles comes out of \<^verbatim>\<open>json.load\<close>: reports, alerts,
  request bodies and the approval log. A Python \<^verbatim>\<open>dict\<close> keeps insertion order, and the
  campaign scan of \<^verbatim>\<open>enrich_alert\<close> depends on it, so an object is an association list
  (keys distinct in a real dict; \<open>map_of\<close> reads the first binding). \<open>JNull\<close> is Python's
  \<^verbatim>\<open>None\<close>. Numbers are Python ints (unbounded); JSON numbers with a fraction are floats
  in Python and are outside this model. A string is the list of the bytes of its UTF-8
  encoding; the rule keywords are ASCII, so a keyword occurs among the bytes exactly when
  it occurs among the characters.
\<close>

datatype json =
    JNull
  | JBool bool
  | JInt int
  | JStr string
  | JList "json list"
  | JObj "(string \<times> json) list"

type_synonym dict = "(string \<times> json) list"

datatype py_error = AttributeError | TypeError | ValueError | OSError

text \<open>\<^verbatim>\<open>d.get(k, default)\<close> on a dict, and on an arbitrary value (only a dict has \<^verbatim>\<open>.get\<close>).\<close>

definition dict_get :: "dict \<Rightarrow> string \<Rightarrow> json \<Rightarrow> json" where
  "dict_get d k dflt = (case map_of d k of Some v \<Rightarrow> v | None \<Rightarrow> dflt)"

definition py_get :: "json \<Rightarrow> string \<Rightarrow> json \<Rightarrow> py_error + json" where
  "py_get obj k dflt =
     (case obj of JObj d \<Rightarrow> Inr (dict_get d k dflt) | _ \<Rightarrow> Inl AttributeError)"

text \<open>Truth value testing (\<^verbatim>\<open>if x\<close>, \<^verbatim>\<open>not x\<close>, \<^verbatim>\<open>x or y\<close>).\<close>

fun truthy :: "json \<Rightarrow> bool" where
  "truthy JNull = False"
| "truthy (JBool b) = b"
| "truthy (JInt n) = (n \<noteq> 0)"
| "truthy (JStr s) = (s \<noteq> [])"
| "truthy (JList xs) = (xs \<noteq> [])"
| "truthy (JObj d) = (d \<noteq> [])"

text \<open>
  The numeric reading of a value: \<^verbatim>\<open>bool\<close> is a subclass of \<^verbatim>\<open>int\<close> in Python, every
  other kind of value makes \<^verbatim>\<open>x > 0\<close> raise \<^verbatim>\<open>TypeError\<close>.
\<close>

fun as_num :: "json \<Rightarrow> int option" where
  "as_num (JInt n) = Some n"
| "as_num (JBool b) = Some (if b then 1 else 0)"
| "as_num JNull = None"
| "as_num (JStr s) = None"
| "as_num (JList xs) = None"
| "as_num (JObj d) = None"

definition py_gt :: "json \<Rightarrow> int \<Rightarrow> py_error + bool" where
  "py_gt v k = (case as_num v of Some n \<Rightarrow> Inr (k < n) | None \<Rightarrow> Inl TypeError)"

text \<open>Lists and dicts are unhashable: using one as a dict key raises \<^verbatim>\<open>TypeError\<close>.\<close>

fun hashable :: "json \<Rightarrow> bool" where
  "hashable (JList xs) = False"
| "hashable (JObj d) = False"
| "hashable JNull = True"
| "hashable (JBool b) = True"
| "hashable (JInt n) = True"
| "hashable (JStr s) = True"

text \<open>\<^verbatim>\<open>for c in v\<close>: a list yields its elements, a string its characters, a dict its keys.\<close>

fun py_iter :: "json \<Rightarrow> py_error + json list" where
  "py_iter (JList xs) = Inr xs"
| "py_iter (JStr s) = Inr (map (\<lambda>c. JStr [c]) s)"
| "py_iter (JObj d) = Inr (map (\<lambda>kv. JStr (fst kv)) d)"
| "py_iter JNull = Inl TypeError"
| "py_iter (JBool b) = Inl TypeError"
| "py_iter (JInt n) = Inl TypeError"

text \<open>
  Four things the code relies on are not part of \<^verbatim>\<open>app.py\<close> and are parameters:
  \<^verbatim>\<open>hash\<close> on strings (seeded per process); the \<^verbatim>\<open>repr\<close> of a list or dict inside an
  f-string, which can raise; \<^verbatim>\<open>str.lower()\<close> on a string that is not pure ASCII (the
  Unicode case mapping, which can produce ASCII letters: U+212A KELVIN SIGN lowers to
  \<^verbatim>\<open>k\<close>); and the interpreter's limit on the digits of an int-to-str conversion
  (\<^verbatim>\<open>sys.get_int_max_str_digits()\<close>: 4300 by default, 0 for no limit, never set below 640).
\<close>

record py_env =
  hash_str :: "string \<Rightarrow> int"
  repr_container :: "json \<Rightarrow> py_error + string"
  lower_non_ascii :: "string \<Rightarrow> string"
  int_max_str_digits :: nat

text \<open>
  \<^verbatim>\<open>str.lower()\<close>: on a pure ASCII string it maps \<^verbatim>\<open>A-Z\<close> to \<^verbatim>\<open>a-z\<close> and leaves the rest;
  on any other string the result is the parameter's. Then the substring test \<^verbatim>\<open>sub in s\<close>.
\<close>

definition is_ascii :: "char \<Rightarrow> bool" where
  "is_ascii c = (of_char c < (128::nat))"

definition lower_char :: "char \<Rightarrow> char" where
  "lower_char c =
     (case map_of (zip ''ABCDEFGHIJKLMNOPQRSTUVWXYZ'' ''abcdefghijklmnopqrstuvwxyz'') c of
        Some l \<Rightarrow> l | None \<Rightarrow> c)"

definition py_lower :: "py_env \<Rightarrow> string \<Rightarrow> string" where
  "py_lower env s = (if list_all is_ascii s then map lower_char s else lower_non_ascii env s)"

fun starts_with :: "string \<Rightarrow> string \<Rightarrow> bool" where
  "starts_with [] s = True"
| "starts_with (p # ps) [] = False"
| "starts_with (p # ps) (c # cs) = (p = c \<and> starts_with ps cs)"

fun py_in :: "string \<Rightarrow> string \<Rightarrow> bool" where
  "py_in sub [] = (sub = [])"
| "py_in sub (c # cs) = (starts_with sub (c # cs) \<or> py_in sub cs)"

text \<open>
  The decimal digits of an int, and the conversion \<^verbatim>\<open>str(n)\<close> that f-string
  interpolation performs: it raises \<^verbatim>\<open>ValueError\<close> when the int has more digits (the sign
  not counted) than the limit allows. CPython never refuses an int of up to 640 digits.
\<close>

definition digit_char :: "nat \<Rightarrow> char" where
  "digit_char d = char_of (48 + d)"

function show_nat :: "nat \<Rightarrow> string" where
  "show_nat n = (if n < 10 then [digit_char n] else show_nat (n div 10) @ [digit_char (n mod 10)])"
  by pat_completeness auto
termination
  by (relation "measure (\<lambda>n. n)") auto

declare show_nat.simps [simp del]

definition digits_int :: "int \<Rightarrow> string" where
  "digits_int i = (if i < 0 then CHR ''-'' # show_nat (nat (- i)) else show_nat (nat i))"

definition num_digits :: "int \<Rightarrow> nat" where
  "num_digits i = length (show_nat (nat \<bar>i\<bar>))"

definition int_ok :: "py_env \<Rightarrow> int \<Rightarrow> bool" where
  "int_ok env i =
     (\<not> (0 < int_max_str_digits env \<and> int_max_str_digits env < num_digits i \<and>
         640 < num_digits i))"

definition show_int :: "py_env \<Rightarrow> int \<Rightarrow> py_error + string" where
  "show_int env i = (if int_ok env i then Inr (digits_int i) else Inl ValueError)"

text \<open>\<^verbatim>\<open>str(v)\<close>, as an f-string field \<^verbatim>\<open>{v}\<close> computes it.\<close>

fun py_str :: "py_env \<Rightarrow> json \<Rightarrow> py_error + string" where
  "py_str env JNull = Inr ''None''"
| "py_str env (JBool b) = Inr (if b then ''True'' else ''False'')"
| "py_str env (JInt n) = show_int env n"
| "py_str env (JStr s) = Inr s"
| "py_str env (JList xs) = repr_container env (JList xs)"
| "py_str env (JObj d) = repr_container env (JObj d)"

text \<open>The two non-ASCII characters of the rule texts, as their UTF-8 bytes.\<close>

definition em_dash :: string where
  "em_dash = [char_of (226::nat), char_of (128::nat), char_of (148::nat)]"

definition right_arrow :: string where
  "right_arrow = [char_of (226::nat), char_of (134::nat), char_of (146::nat)]"

section \<open>The enrichment engine: \<^verbatim>\<open>enrich_alert\<close> (app.py, lines 617-759)\<close>

text \<open>
  The dict \<^verbatim>\<open>enriched\<close> always has the same eleven keys, and a fix suggestion the same
  four or five, so both are records. Fields that copy a value of the alert unchanged
  (\<open>level\<close>, \<open>school\<close>, \<open>assigned_to\<close>, the fallback's \<open>why\<close> and \<open>description\<close>) keep the
  type \<open>json\<close>: nothing in the code checks what they hold.
\<close>

record fix_suggestion =
  description :: json
  action_type :: string
  estimated_impact :: string
  assigned_agent :: json
  campaign :: "json option"

record enriched =
  alert_id :: string
  agent :: string
  level :: json
  school :: json
  title :: string
  impact_monthly :: int
  impact_type :: string
  why :: json
  evidence :: "string list"
  "fixes" :: "fix_suggestion list"
  assigned_to :: json

definition mk_fix :: "string \<Rightarrow> string \<Rightarrow> string \<Rightarrow> string \<Rightarrow> fix_suggestion" where
  "mk_fix d a i g =
     \<lparr>description = JStr d, action_type = a, estimated_impact = i, assigned_agent = JStr g,
      campaign = None\<rparr>"

subsection \<open>Which rule fires\<close>

text \<open>
  The \<^verbatim>\<open>if\<close>/\<^verbatim>\<open>elif\<close> chain on \<^verbatim>\<open>agent_id\<close> and on the lower-cased finding, condition by
  condition and in the source's order. In line 675 \<^verbatim>\<open>and\<close> binds tighter than \<^verbatim>\<open>or\<close>.
\<close>

datatype rule =
    Annunci_zero_conversions | Annunci_cpa | Annunci_collapsed | Annunci_performing
  | Zona_deindex | Zona_zero_results | Zona_not_indexed
  | Spia_dropped | Spia_ranking
  | Bussola_zero_conversions | Bussola_bounce

definition match_rule :: "string \<Rightarrow> string \<Rightarrow> rule option" where
  "match_rule agent_id finding =
     (if agent_id = ''annunci'' then
        (if py_in ''zero conversions'' finding \<or> py_in ''0 conversions'' finding
           then Some Annunci_zero_conversions
         else if py_in ''cpa'' finding \<and>
                 (py_in ''high'' finding \<or> py_in ''2.'' finding \<or> py_in ''3.'' finding)
           then Some Annunci_cpa
         else if py_in ''collapsed'' finding \<or>
                 (py_in ''dropped'' finding \<and> py_in ''conversion'' finding)
           then Some Annunci_collapsed
         else if py_in ''excellent'' finding \<or> py_in ''good'' finding \<or>
                 py_in ''performing'' finding
           then Some Annunci_performing
         else None)
      else if agent_id = ''zona'' then
        (if py_in ''deindex'' finding then Some Zona_deindex
         else if py_in ''zero'' finding \<and> py_in ''results'' finding then Some Zona_zero_results
         else if py_in ''not appearing'' finding \<or> py_in ''not indexed'' finding
           then Some Zona_not_indexed
         else None)
      else if agent_id = ''spia'' then
        (if py_in ''dropped'' finding \<or> py_in ''drop'' finding then Some Spia_dropped
         else if py_in ''ranking poorly'' finding \<or> py_in ''low ctr'' finding
           then Some Spia_ranking
         else None)
      else if agent_id = ''bussola'' then
        (if py_in ''zero conversions'' finding \<and> py_in ''sessions'' finding
           then Some Bussola_zero_conversions
         else if py_in ''bounce'' finding then Some Bussola_bounce
         else None)
      else None)"

subsection \<open>Reading the report\<close>

text \<open>
  Lines 649-654. The inner loop stops at the first campaign with no conversions and more
  than 50 spent (\<open>Some\<close> its name); \<^verbatim>\<open>break\<close> leaves the inner loop only, so a later
  school overwrites \<^verbatim>\<open>campaign_name\<close>. \<^verbatim>\<open>c.get("spend", 0) > 50\<close> is evaluated only
  when \<^verbatim>\<open>c.get("conversions") == 0\<close> holds.
\<close>

fun scan_school :: "json list \<Rightarrow> py_error + json option" where
  "scan_school [] = Inr None"
| "scan_school (c # cs) =
     (case c of
        JObj d \<Rightarrow>
          (if as_num (dict_get d ''conversions'' JNull) = Some 0 then
             (case py_gt (dict_get d ''spend'' (JInt 0)) 50 of
                Inl e \<Rightarrow> Inl e
              | Inr True \<Rightarrow> Inr (Some (dict_get d ''name'' (JStr '''')))
              | Inr False \<Rightarrow> scan_school cs)
           else scan_school cs)
      | _ \<Rightarrow> Inl AttributeError)"

fun scan_breakdown :: "json \<Rightarrow> json list \<Rightarrow> py_error + json" where
  "scan_breakdown name [] = Inr name"
| "scan_breakdown name (s # ss) =
     (case py_iter s of
        Inl e \<Rightarrow> Inl e
      | Inr cs \<Rightarrow>
          (case scan_school cs of
             Inl e \<Rightarrow> Inl e
           | Inr None \<Rightarrow> scan_breakdown name ss
           | Inr (Some n) \<Rightarrow> scan_breakdown n ss))"

definition find_campaign :: "json \<Rightarrow> py_error + json" where
  "find_campaign report =
     (case py_get report ''campaign_breakdown'' (JObj []) of
        Inl e \<Rightarrow> Inl e
      | Inr (JObj cb) \<Rightarrow> scan_breakdown (JStr '''') (map snd cb)
      | Inr _ \<Rightarrow> Inl AttributeError)"

text \<open>
  Lines 699-700:
  \<^verbatim>\<open>report.get('metrics', {}).get(school, {}).get(field, '?')\<close> inside an f-string.
  The keys of a JSON object are strings, so a school that is not a string finds nothing;
  a school that is a list or a dict cannot be hashed.
\<close>

definition pages_field :: "py_env \<Rightarrow> json \<Rightarrow> json \<Rightarrow> string \<Rightarrow> py_error + string" where
  "pages_field env report sch field =
     (case py_get report ''metrics'' (JObj []) of
        Inl e \<Rightarrow> Inl e
      | Inr (JObj m) \<Rightarrow>
          (if \<not> hashable sch then Inl TypeError
           else
             (case py_get (case sch of JStr k \<Rightarrow> dict_get m k (JObj []) | _ \<Rightarrow> JObj [])
                     field (JStr ''?'') of
                Inl e \<Rightarrow> Inl e
              | Inr v \<Rightarrow> py_str env v))
      | Inr _ \<Rightarrow> Inl AttributeError)"


subsection \<open>What each rule writes\<close>

text \<open>
  The three assignments \<^verbatim>\<open>enriched["why"]\<close>, \<^verbatim>\<open>enriched["evidence"]\<close>,
  \<^verbatim>\<open>enriched["fixes"]\<close> of each branch, as one triple. \<open>a\<close> is the alert, \<open>raw\<close> its
  finding as written (\<^verbatim>\<open>alert.get("finding", "")\<close>), \<open>sch\<close> its school, \<open>impact\<close> the value of
  \<^verbatim>\<open>impact_dollars\<close> and \<open>n\<close> its numeric reading (line 638 has already compared it with 0
  when a branch runs, so it is a number). Every f-string field is a conversion that can
  raise; the fields are converted in the order in which the source writes them.
\<close>

definition rule_annunci_zero_conversions ::
  "py_env \<Rightarrow> json \<Rightarrow> string \<Rightarrow> json \<Rightarrow> int \<Rightarrow> py_error + (string \<times> string list \<times> fix_suggestion list)"
where
  "rule_annunci_zero_conversions env report raw impact n =
     (case find_campaign report of
        Inl e \<Rightarrow> Inl e
      | Inr campaign_name \<Rightarrow>
          (case py_str env impact of
             Inl e \<Rightarrow> Inl e
           | Inr spent \<Rightarrow>
               (case (if truthy campaign_name
                      then (case py_str env campaign_name of
                              Inl e \<Rightarrow> Inl e
                            | Inr name \<Rightarrow> Inr (''Campaign: '' @ name))
                      else Inr ''Multiple campaigns affected'') of
                  Inl e \<Rightarrow> Inl e
                | Inr affected \<Rightarrow>
                    (case show_int env (n * 4) of
                       Inl e \<Rightarrow> Inl e
                     | Inr monthly \<Rightarrow>
                         Inr (''This campaign has been running for a full week spending money but generating zero tour bookings. Either the targeting is too broad, the landing page isn't converting, or conversion tracking may be broken.'',
                              [''$'' @ spent @ '' spent in the last 7 days with 0 conversions'',
                               affected,
                               ''Week-over-week conversions dropped 96% across all campaigns'',
                               ''Other campaigns in the same account are also underperforming''],
                              [\<lparr>description = JStr ''Pause the campaign immediately to stop wasting budget'',
                                action_type = ''pause_campaign'',
                                estimated_impact = ''Save ~$'' @ monthly @ ''/month'',
                                assigned_agent = JStr ''annunci'',
                                campaign = Some (if truthy campaign_name then campaign_name
                                                 else JStr raw)\<rparr>,
                               mk_fix ''Verify conversion tracking is working with Bussola''
                                 ''verify_tracking'' ''Ensure data accuracy'' ''bussola''])))))"

definition rule_zona_deindex ::
  "py_env \<Rightarrow> json \<Rightarrow> string \<Rightarrow> json \<Rightarrow> int \<Rightarrow> py_error + (string \<times> string list \<times> fix_suggestion list)"
where
  "rule_zona_deindex env report raw sch n =
     (case pages_field env report sch ''pages_live'' of
        Inl e \<Rightarrow> Inl e
      | Inr live \<Rightarrow>
          (case pages_field env report sch ''pages_indexed'' of
             Inl e \<Rightarrow> Inl e
           | Inr indexed \<Rightarrow>
               (case show_int env (n * 4) of
                  Inl e \<Rightarrow> Inl e
                | Inr monthly \<Rightarrow>
                    Inr (''Google can't find these pages because they haven't been submitted to Search Console, or there's a technical block (like a noindex tag). The content is excellent but completely invisible to anyone searching.'',
                         [raw, ''Pages live: '' @ live, ''Pages indexed: '' @ indexed],
                         [mk_fix ''Submit all community pages to Google Search Console for indexing''
                            ''submit_indexing''
                            (''Recover ~$'' @ monthly @ ''/month in organic traffic value'')
                            ''architetto'',
                          mk_fix ''Check for noindex tags or robots.txt blocks'' ''check_noindex''
                            ''Remove technical barriers'' ''architetto'',
                          mk_fix ''Add pages to XML sitemap'' ''update_sitemap''
                            ''Improve crawl discovery'' ''architetto'']))))"

fun apply_rule ::
  "py_env \<Rightarrow> rule \<Rightarrow> json \<Rightarrow> string \<Rightarrow> json \<Rightarrow> json \<Rightarrow> int \<Rightarrow>
     py_error + (string \<times> string list \<times> fix_suggestion list)"
where
  "apply_rule env Annunci_zero_conversions report raw sch impact n =
     rule_annunci_zero_conversions env report raw impact n"
| "apply_rule env Annunci_cpa report raw sch impact n =
     Inr (''The cost per acquisition is significantly above target, meaning you're paying too much for each tour booking. This usually means the ad assets or targeting need optimization.'',
          [raw, ''Target CPA is $50, current CPA is more than double''],
          [mk_fix ''Audit asset group performance and pause underperformers'' ''audit_assets''
             ''Reduce CPA by 30-50%'' ''annunci''])"
| "apply_rule env Annunci_collapsed report raw sch impact n =
     Inr (''Conversions dropped dramatically (96%) in one week. This is almost certainly a tracking issue '' @ em_dash @ '' real tour interest doesn't drop this fast. The conversion pixel or form tracking likely broke.'',
          [''Previous week: 129 conversions '' @ right_arrow @ '' This week: 5 conversions (96% drop)'',
           ''Ad spend only decreased 10%, so ads are still running'',
           ''All campaigns affected simultaneously '' @ em_dash @ '' points to tracking, not ad quality''],
          [mk_fix ''Run conversion tracking audit with Bussola'' ''verify_tracking''
             (''Critical '' @ em_dash @ '' all optimization depends on accurate data'') ''bussola'',
           mk_fix ''Check GTM tags and form submission events'' ''check_gtm''
             ''Identify the exact break point'' ''bussola''])"
| "apply_rule env Annunci_performing report raw sch impact n =
     Inr (''This campaign is performing well and delivering results at or below target cost.'',
          [raw],
          [mk_fix ''Consider increasing budget to get more conversions'' ''increase_budget''
             ''2-3 more tours/week'' ''annunci''])"
| "apply_rule env Zona_deindex report raw sch impact n = rule_zona_deindex env report raw sch n"
| "apply_rule env Zona_zero_results report raw sch impact n =
     (case show_int env (n * 4) of
        Inl e \<Rightarrow> Inl e
      | Inr monthly \<Rightarrow>
          Inr (''Your school doesn't appear in search results for this important local keyword. Competitors are taking all the traffic. Once community pages get indexed, rankings should improve.'',
               [raw],
               [mk_fix ''Optimize community page for this keyword once indexed'' ''optimize_page''
                  (''~$'' @ monthly @ ''/month in organic value'') ''spia'']))"
| "apply_rule env Zona_not_indexed report raw sch impact n =
     (case show_int env (n * 4) of
        Inl e \<Rightarrow> Inl e
      | Inr monthly \<Rightarrow>
          Inr (''This specific community page exists but isn't showing up in Google. It may need to be manually submitted or there could be a technical issue preventing indexing.'',
               [raw],
               [mk_fix ''Submit page to Search Console and verify indexing'' ''submit_indexing''
                  (''~$'' @ monthly @ ''/month potential'') ''architetto'']))"
| "apply_rule env Spia_dropped report raw sch impact n =
     Inr (''Organic search traffic is declining. This could be due to algorithm changes, new competitors ranking higher, or technical SEO issues affecting your site's visibility.'',
          [raw],
          [mk_fix ''Audit affected pages for technical SEO issues'' ''seo_audit''
             ''Recover lost organic traffic'' ''spia'',
           mk_fix ''Check for SERP changes and new competitors'' ''competitor_check''
             ''Understand competitive landscape'' ''spia''])"
| "apply_rule env Spia_ranking report raw sch impact n =
     Inr (''Content targeting these keywords isn't strong enough to compete. The pages exist but need better optimization, more internal links, and stronger authority signals.'',
          [raw],
          [mk_fix ''Optimize content with better keyword targeting and internal links''
             ''optimize_content'' ''Improve rankings to page 1'' ''penna''])"
| "apply_rule env Bussola_zero_conversions report raw sch impact n =
     Inr (''People are visiting the site but nobody is converting. Either the contact form is broken, the tracking code isn't firing, or the landing page isn't compelling enough.'',
          [raw],
          [mk_fix ''Test all forms manually and check GTM setup'' ''check_forms''
             ''Fix conversion path'' ''bussola''])"
| "apply_rule env Bussola_bounce report raw sch impact n =
     Inr (''Visitors are leaving immediately without interacting. The landing page may be slow, confusing, or not matching what the ad promised.'',
          [raw],
          [mk_fix ''Optimize landing page UX and load time'' ''optimize_page''
             ''Reduce bounce rate, increase conversions'' ''architetto''])"

subsection \<open>The function\<close>

text \<open>Lines 751-757: the default fallback, taken when \<^verbatim>\<open>enriched["why"]\<close> is still falsy.\<close>

definition default_fallback :: "dict \<Rightarrow> string \<Rightarrow> string \<Rightarrow> enriched \<Rightarrow> enriched" where
  "default_fallback a agent_id raw e =
     (if \<not> truthy (why e) then
        e\<lparr>why := dict_get a ''action_required''
                   (JStr ''Investigation needed to determine root cause.''),
          evidence := [raw],
          fixes := [\<lparr>description = dict_get a ''action_required'' (JStr ''Review and take action''),
                     action_type = ''manual_review'',
                     estimated_impact = ''TBD'',
                     assigned_agent = dict_get a ''assigned_to'' (JStr agent_id),
                     campaign = None\<rparr>]\<rparr>
      else e)"

text \<open>
  Lines 619-644 build the record; \<^verbatim>\<open>alert.get\<close> needs a dict and \<^verbatim>\<open>.lower()\<close> a string
  (\<^verbatim>\<open>AttributeError\<close> otherwise), the f-string of line 623 converts the school and the
  reduced hash to text, and \<^verbatim>\<open>impact > 0\<close> needs a number (\<^verbatim>\<open>TypeError\<close> otherwise; line
  638 evaluates it for every agent).
\<close>

definition enrich_alert :: "py_env \<Rightarrow> json \<Rightarrow> string \<Rightarrow> json \<Rightarrow> py_error + enriched" where
  "enrich_alert env alert agent_id report =
     (case alert of
        JObj a \<Rightarrow>
          (case dict_get a ''finding'' (JStr '''') of
             JStr raw \<Rightarrow>
               (let finding = py_lower env raw;
                    sch = dict_get a ''school'' (JStr ''unknown'');
                    lvl = dict_get a ''level'' (JStr ''yellow'');
                    impact = dict_get a ''impact_dollars'' (JInt 0)
                in case py_str env sch of
                     Inl e \<Rightarrow> Inl e
                   | Inr school_text \<Rightarrow>
                (case show_int env (\<bar>hash_str env raw\<bar> mod 10000) of
                     Inl e \<Rightarrow> Inl e
                   | Inr suffix \<Rightarrow>
                (case as_num impact of
                     None \<Rightarrow> Inl TypeError
                   | Some n \<Rightarrow>
                       (let base =
                              \<lparr>alert_id = school_text @ ''-'' @ agent_id @ ''-'' @ suffix,
                               agent = agent_id,
                               level = lvl,
                               school = sch,
                               title = raw,
                               impact_monthly = (if 0 < n then n * 4 else 0),
                               impact_type =
                                 (if agent_id = ''annunci'' \<and> 0 < n then ''confirmed''
                                  else if agent_id = ''bussola'' \<and> 0 < n then ''confirmed''
                                  else ''estimated''),
                               why = JStr '''',
                               evidence = [],
                               fixes = [],
                               assigned_to = dict_get a ''assigned_to'' (JStr agent_id)\<rparr>
                        in case match_rule agent_id finding of
                             None \<Rightarrow> Inr (default_fallback a agent_id raw base)
                           | Some r \<Rightarrow>
                               (case apply_rule env r report raw sch impact n of
                                  Inl e \<Rightarrow> Inl e
                                | Inr (w, ev, fx) \<Rightarrow>
                                    Inr (default_fallback a agent_id raw
                                           (base\<lparr>why := JStr w, evidence := ev, fixes := fx\<rparr>)))))))
           | _ \<Rightarrow> Inl AttributeError)
      | _ \<Rightarrow> Inl AttributeError)"


subsection \<open>Well-typed alerts and reports\<close>

text \<open>
  The shapes \<^verbatim>\<open>enrich_alert\<close> relies on without checking them. An absent field is always
  fine (every read has a default); a present one must have the kind of value the code
  applies an operation to: \<^verbatim>\<open>finding\<close> a string (\<^verbatim>\<open>.lower()\<close>); \<^verbatim>\<open>impact_dollars\<close> a number
  (\<^verbatim>\<open>> 0\<close>) that can be converted to text, as can four times it; \<^verbatim>\<open>school\<close> hashable (it
  is used as a key into \<^verbatim>\<open>metrics\<close>) and convertible to text;
  \<^verbatim>\<open>campaign_breakdown\<close> a dict of lists of campaign dicts with a numeric \<^verbatim>\<open>spend\<close> and a
  \<^verbatim>\<open>name\<close> convertible to text, and \<^verbatim>\<open>metrics\<close> a dict of dicts whose \<^verbatim>\<open>pages_live\<close> and
  \<^verbatim>\<open>pages_indexed\<close> are convertible to text. A value is convertible to text unless it is
  an int with more digits than the interpreter's limit, or a list or dict whose
  \<^verbatim>\<open>repr\<close> raises.
\<close>

definition field_ok :: "dict \<Rightarrow> string \<Rightarrow> (json \<Rightarrow> bool) \<Rightarrow> bool" where
  "field_ok d k P = (case map_of d k of None \<Rightarrow> True | Some v \<Rightarrow> P v)"

fun is_str :: "json \<Rightarrow> bool" where
  "is_str (JStr s) = True"
| "is_str JNull = False"
| "is_str (JBool b) = False"
| "is_str (JInt n) = False"
| "is_str (JList xs) = False"
| "is_str (JObj d) = False"

fun is_dict :: "json \<Rightarrow> bool" where
  "is_dict (JObj d) = True"
| "is_dict JNull = False"
| "is_dict (JBool b) = False"
| "is_dict (JInt n) = False"
| "is_dict (JStr s) = False"
| "is_dict (JList xs) = False"

definition is_num :: "json \<Rightarrow> bool" where
  "is_num v = (as_num v \<noteq> None)"

fun str_ok :: "py_env \<Rightarrow> json \<Rightarrow> bool" where
  "str_ok env (JInt n) = int_ok env n"
| "str_ok env (JList xs) = (\<not> isl (repr_container env (JList xs)))"
| "str_ok env (JObj d) = (\<not> isl (repr_container env (JObj d)))"
| "str_ok env JNull = True"
| "str_ok env (JBool b) = True"
| "str_ok env (JStr s) = True"

definition impact_ok :: "py_env \<Rightarrow> json \<Rightarrow> bool" where
  "impact_ok env v =
     (case as_num v of None \<Rightarrow> False | Some n \<Rightarrow> str_ok env v \<and> int_ok env (n * 4))"

definition school_ok :: "py_env \<Rightarrow> json \<Rightarrow> bool" where
  "school_ok env v = (hashable v \<and> str_ok env v)"

definition campaign_ok :: "py_env \<Rightarrow> json \<Rightarrow> bool" where
  "campaign_ok env c =
     (case c of
        JObj d \<Rightarrow> field_ok d ''spend'' is_num \<and> field_ok d ''name'' (str_ok env)
      | _ \<Rightarrow> False)"

definition campaigns_ok :: "py_env \<Rightarrow> json \<Rightarrow> bool" where
  "campaigns_ok env s = (case s of JList cs \<Rightarrow> list_all (campaign_ok env) cs | _ \<Rightarrow> False)"

definition breakdown_ok :: "py_env \<Rightarrow> json \<Rightarrow> bool" where
  "breakdown_ok env cb =
     (case cb of JObj schools \<Rightarrow> list_all (campaigns_ok env) (map snd schools) | _ \<Rightarrow> False)"

definition pages_ok :: "py_env \<Rightarrow> json \<Rightarrow> bool" where
  "pages_ok env v =
     (case v of
        JObj d \<Rightarrow> field_ok d ''pages_live'' (str_ok env) \<and> field_ok d ''pages_indexed'' (str_ok env)
      | _ \<Rightarrow> False)"

definition metrics_ok :: "py_env \<Rightarrow> json \<Rightarrow> bool" where
  "metrics_ok env m = (case m of JObj ms \<Rightarrow> list_all (pages_ok env) (map snd ms) | _ \<Rightarrow> False)"

definition wf_alert :: "py_env \<Rightarrow> json \<Rightarrow> bool" where
  "wf_alert env alert =
     (case alert of
        JObj a \<Rightarrow> field_ok a ''finding'' is_str \<and> field_ok a ''impact_dollars'' (impact_ok env) \<and>
                  field_ok a ''school'' (school_ok env)
      | _ \<Rightarrow> False)"

definition wf_report :: "py_env \<Rightarrow> json \<Rightarrow> bool" where
  "wf_report env report =
     (case report of
        JObj r \<Rightarrow> field_ok r ''campaign_breakdown'' (breakdown_ok env) \<and>
                  field_ok r ''metrics'' (metrics_ok env)
      | _ \<Rightarrow> False)"

text \<open>Inputs used to instantiate the theorems below.\<close>

definition demo_env :: py_env where
  "demo_env =
     \<lparr>hash_str = (\<lambda>s. int (length s)),
      repr_container = (\<lambda>v. Inr ''{...}''),
      lower_non_ascii = (\<lambda>s. s),
      int_max_str_digits = 4300\<rparr>"

definition zero_conv_alert :: json where
  "zero_conv_alert =
     JObj [(''finding'', JStr ''Zero conversions despite $420 spend''),
           (''school'', JStr ''beibei''), (''level'', JStr ''red''),
           (''impact_dollars'', JInt 420)]"

definition unmatched_alert :: json where
  "unmatched_alert =
     JObj [(''finding'', JStr ''Unusual pattern observed''),
           (''action_required'', JStr ''Review manually''),
           (''assigned_to'', JStr ''marco'')]"

definition demo_report :: json where
  "demo_report =
     JObj [(''date'', JStr ''2026-02-01''), (''severity'', JStr ''red''),
           (''campaign_breakdown'',
              JObj [(''beibei'',
                     JList [JObj [(''name'', JStr ''Tours PMax''), (''conversions'', JInt 0),
                                  (''spend'', JInt 420)]])])]"


section \<open>Severity ranking (app.py, lines 992-993)\<close>

text \<open>
  \<^verbatim>\<open>order = {"red": 0, "yellow": 1, "green": 2}\<close> and the sort key
  \<^verbatim>\<open>(order.get(a["level"], 3), -a.get("impact_monthly", 0))\<close>. Looking a level up hashes
  it, so a level that is a list or a dict raises \<^verbatim>\<open>TypeError\<close> and the sort with it.
  \<^verbatim>\<open>list.sort\<close> is stable; a stable sort by a key has one possible result, which the
  library's \<open>sort_key\<close> computes. Tuples compare lexicographically (the order on pairs).
\<close>

definition level_order :: "json \<Rightarrow> nat" where
  "level_order l =
     (case l of
        JStr s \<Rightarrow> (if s = ''red'' then 0 else if s = ''yellow'' then 1
                   else if s = ''green'' then 2 else 3)
      | _ \<Rightarrow> 3)"

definition alert_key :: "enriched \<Rightarrow> nat \<times> int" where
  "alert_key a = (level_order (level a), - impact_monthly a)"

definition rank_alerts :: "enriched list \<Rightarrow> py_error + enriched list" where
  "rank_alerts xs =
     (if list_ex (\<lambda>a. \<not> hashable (level a)) xs then Inl TypeError
      else Inr (sort_key alert_key xs))"

section \<open>The source resolver: \<^verbatim>\<open>find_latest_report\<close> (app.py, lines 53-61 and 555-574)\<close>

text \<open>
  What the function asks of the file system, as a record of answers: \<^verbatim>\<open>glob.glob\<close> of a
  pattern, \<^verbatim>\<open>os.path.getmtime\<close> of a path (\<open>None\<close> when it raises \<^verbatim>\<open>OSError\<close>; the call
  stands outside the \<^verbatim>\<open>try\<close>), and \<^verbatim>\<open>open\<close> followed by \<^verbatim>\<open>json.load\<close> (\<open>None\<close> when
  either raises). Modification times only get compared, so an integer stands for them.
  The global \<^verbatim>\<open>_sample_reports\<close> is threaded through as \<open>cache\<close>, \<open>JNull\<close> being \<^verbatim>\<open>None\<close>.
\<close>

record fs =
  reports_dir :: string
  glob :: "string \<Rightarrow> string list"
  getmtime :: "string \<Rightarrow> int option"
  read_json :: "string \<Rightarrow> json option"
  sample_reports_file :: "json option"

definition load_sample_reports :: "fs \<Rightarrow> json \<Rightarrow> json" where
  "load_sample_reports w cache =
     (if cache = JNull then (case sample_reports_file w of Some doc \<Rightarrow> doc | None \<Rightarrow> JObj [])
      else cache)"

definition search_patterns :: "string \<Rightarrow> string \<Rightarrow> string list" where
  "search_patterns dir agent_id =
     (if agent_id = ''annunci'' then [dir @ ''/annunci-*.json'']
      else if agent_id = ''bussola'' then [dir @ ''/bussola*.json'']
      else if agent_id = ''spia'' then [dir @ ''/spia/*.json'']
      else if agent_id = ''zona'' then [dir @ ''/zona-*.json'']
      else [dir @ ''/'' @ agent_id @ ''*.json'', dir @ ''/'' @ agent_id @ ''/*.json''])"

definition matching_files :: "fs \<Rightarrow> string \<Rightarrow> string list" where
  "matching_files w agent_id = concat (map (glob w) (search_patterns (reports_dir w) agent_id))"

text \<open>
  \<^verbatim>\<open>max(files, key=os.path.getmtime)\<close>: the keys are taken in order, and a later file
  replaces the best one only when its key is strictly greater.
\<close>

fun max_from :: "(string \<Rightarrow> int option) \<Rightarrow> string \<Rightarrow> int \<Rightarrow> string list \<Rightarrow> py_error + string" where
  "max_from mt best bk [] = Inr best"
| "max_from mt best bk (f # fs) =
     (case mt f of
        None \<Rightarrow> Inl OSError
      | Some k \<Rightarrow> (if bk < k then max_from mt f k fs else max_from mt best bk fs))"

definition sample_for :: "fs \<Rightarrow> json \<Rightarrow> string \<Rightarrow> (py_error + json) \<times> json" where
  "sample_for w cache agent_id =
     (let s = load_sample_reports w cache in (py_get s agent_id JNull, s))"

definition find_latest_report :: "fs \<Rightarrow> json \<Rightarrow> string \<Rightarrow> (py_error + json) \<times> json" where
  "find_latest_report w cache agent_id =
     (case matching_files w agent_id of
        [] \<Rightarrow> sample_for w cache agent_id
      | f # fs \<Rightarrow>
          (case getmtime w f of
             None \<Rightarrow> (Inl OSError, cache)
           | Some k \<Rightarrow>
               (case max_from (getmtime w) f k fs of
                  Inl e \<Rightarrow> (Inl e, cache)
                | Inr latest \<Rightarrow>
                    (case read_json w latest of
                       Some doc \<Rightarrow> (Inr doc, cache)
                     | None \<Rightarrow> sample_for w cache agent_id))))"

section \<open>The approval ledger: \<^verbatim>\<open>load_approvals\<close>, \<^verbatim>\<open>save_approval\<close>, \<^verbatim>\<open>api_fix\<close>\<close>

text \<open>
  The state an approval touches: the local log \<^verbatim>\<open>APPROVALS_FILE\<close> and the bundled
  \<^verbatim>\<open>data/approvals.json\<close> (each either unreadable, or the document \<^verbatim>\<open>json.load\<close> gives),
  whether \<^verbatim>\<open>os.makedirs\<close> and \<^verbatim>\<open>open(..., "w")\<close> succeed, and the remote store: whether it
  is configured, and what a POST to a table answers. The clock and \<^verbatim>\<open>json.dumps\<close> are
  parameters.
\<close>

datatype file_state = Unreadable | Parsed json

datatype post_result = Post_raises | Post_response nat "json option"

record store =
  approvals_file :: file_state
  sample_approvals :: file_state
  local_writable :: bool
  supabase_available :: bool
  remote_post :: "string \<Rightarrow> json \<Rightarrow> post_result"
  now_iso :: string
  json_dumps :: "json \<Rightarrow> string"

record request =
  demo_arg :: "string option"
  referrer :: "string option"
  body :: json

text \<open>Lines 597-606.\<close>

definition load_approvals :: "store \<Rightarrow> json" where
  "load_approvals st =
     (case approvals_file st of
        Parsed doc \<Rightarrow> doc
      | Unreadable \<Rightarrow>
          (case sample_approvals st of Parsed doc \<Rightarrow> doc | Unreadable \<Rightarrow> JList []))"

text \<open>
  Lines 609-614. \<^verbatim>\<open>approvals.append\<close> needs a list (\<^verbatim>\<open>AttributeError\<close> otherwise); a
  failed \<^verbatim>\<open>makedirs\<close> or \<^verbatim>\<open>open\<close> raises \<^verbatim>\<open>OSError\<close> and leaves the log as it was.
\<close>

definition save_approval :: "store \<Rightarrow> json \<Rightarrow> py_error + store" where
  "save_approval st approval =
     (case load_approvals st of
        JList approvals \<Rightarrow>
          (if local_writable st
           then Inr (st\<lparr>approvals_file := Parsed (JList (approvals @ [approval]))\<rparr>)
           else Inl OSError)
      | _ \<Rightarrow> Inl AttributeError)"

text \<open>
  Lines 108-128: \<^verbatim>\<open>_sb_upsert\<close> returns the response's JSON on status 200 or 201 and
  \<^verbatim>\<open>None\<close> in every other case: store not configured, any exception, any other status.
\<close>

definition sb_upsert :: "store \<Rightarrow> string \<Rightarrow> json \<Rightarrow> json" where
  "sb_upsert st table data =
     (if \<not> supabase_available st then JNull
      else
        (case remote_post st table (case data of JList rows \<Rightarrow> data | _ \<Rightarrow> JList [data]) of
           Post_raises \<Rightarrow> JNull
         | Post_response code answer \<Rightarrow>
             (if code = 200 \<or> code = 201
              then (case answer of Some v \<Rightarrow> v | None \<Rightarrow> JNull)
              else JNull)))"

text \<open>Line 1001: \<^verbatim>\<open>A or B and C\<close> is \<^verbatim>\<open>A or (B and C)\<close>.\<close>

definition demo_blocked :: "request \<Rightarrow> bool" where
  "demo_blocked rq =
     (demo_arg rq = Some ''true'' \<or>
      (case referrer rq of None \<Rightarrow> False | Some r \<Rightarrow> r \<noteq> [] \<and> py_in ''demo=true'' r))"

text \<open>Lines 1006-1016 and 1022-1033.\<close>

definition make_approval :: "store \<Rightarrow> dict \<Rightarrow> json" where
  "make_approval st data =
     JObj [(''alert_id'', dict_get data ''alert_id'' (JStr '''')),
           (''fix_action'', dict_get data ''fix_action'' (JStr '''')),
           (''school'', dict_get data ''school'' (JStr '''')),
           (''campaign'', dict_get data ''campaign'' (JStr '''')),
           (''description'', dict_get data ''description'' (JStr '''')),
           (''estimated_impact'', dict_get data ''estimated_impact'' (JStr '''')),
           (''approved_by'', dict_get data ''approved_by'' (JStr ''client'')),
           (''timestamp'', dict_get data ''timestamp'' (JStr (now_iso st))),
           (''status'', JStr ''approved'')]"

definition action_row :: "store \<Rightarrow> dict \<Rightarrow> json" where
  "action_row st approval =
     JObj [(''alert_id'', dict_get approval ''alert_id'' (JStr '''')),
           (''client_slug'', dict_get approval ''school'' (JStr ''unknown'')),
           (''school'', dict_get approval ''school'' (JStr ''unknown'')),
           (''agent'', dict_get approval ''fix_action'' (JStr ''manual'')),
           (''action_type'', dict_get approval ''fix_action'' (JStr ''manual_review'')),
           (''description'', dict_get approval ''description'' (JStr '''')),
           (''estimated_impact'', dict_get approval ''estimated_impact'' (JStr '''')),
           (''status'', JStr ''approved''),
           (''approved_by'', dict_get approval ''approved_by'' (JStr ''client'')),
           (''result'',
              JStr (json_dumps st
                      (JObj [(''campaign'', dict_get approval ''campaign'' (JStr '''')),
                             (''timestamp'', dict_get approval ''timestamp'' JNull)])))]"

text \<open>
  Lines 997-1038. \<open>body rq\<close> is what \<^verbatim>\<open>request.get_json()\<close> returned. The result is the
  HTTP answer (status and JSON body) or the exception that escapes the handler, the store
  afterwards, and what \<^verbatim>\<open>_sb_upsert\<close> returned (\<open>JNull\<close> when the mirror write failed or
  was not attempted), which the handler drops.
\<close>

definition api_fix :: "store \<Rightarrow> request \<Rightarrow> (py_error + nat \<times> json) \<times> store \<times> json" where
  "api_fix st rq =
     (if demo_blocked rq then
        (Inr (403, JObj [(''error'', JStr (''Demo mode '' @ em_dash @ '' actions disabled'')),
                         (''demo'', JBool True)]), st, JNull)
      else if \<not> truthy (body rq) then
        (Inr (400, JObj [(''error'', JStr ''No JSON body'')]), st, JNull)
      else
        (case body rq of
           JObj data \<Rightarrow>
             (let approval = make_approval st data in
              case save_approval st approval of
                Inl e \<Rightarrow> (Inl e, st, JNull)
              | Inr st' \<Rightarrow>
                  (Inr (200, JObj [(''success'', JBool True), (''approval'', approval)]),
                   st',
                   (if supabase_available st'
                    then sb_upsert st' ''parlami_actions''
                           (action_row st' (case approval of JObj ap \<Rightarrow> ap | _ \<Rightarrow> []))
                    else JNull)))
         | _ \<Rightarrow> (Inl AttributeError, st, JNull)))"


section \<open>Concrete inputs\<close>

text \<open>An alert whose \<^verbatim>\<open>impact_dollars\<close> is a string instead of a number.\<close>

definition malformed_alert :: json where
  "malformed_alert =
     JObj [(''finding'', JStr ''Spend anomaly''), (''school'', JStr ''beibei''),
           (''level'', JStr ''red''), (''impact_dollars'', JStr ''420'')]"

text \<open>The three levels the ranking knows, and three alerts of equal impact.\<close>

definition known_level :: "json \<Rightarrow> bool" where
  "known_level l = (l = JStr ''red'' \<or> l = JStr ''yellow'' \<or> l = JStr ''green'')"

definition sample_enriched :: "string \<Rightarrow> json \<Rightarrow> int \<Rightarrow> enriched" where
  "sample_enriched aid lvl imp =
     \<lparr>alert_id = aid, agent = ''spia'', level = lvl, school = JStr ''beibei'',
      title = ''Traffic dropped'', impact_monthly = imp, impact_type = ''estimated'',
      why = JStr ''Organic search traffic is declining.'', evidence = [''Traffic dropped''],
      fixes = [mk_fix ''Audit affected pages'' ''seo_audit'' ''Recover traffic'' ''spia''],
      assigned_to = JStr ''spia''\<rparr>"

definition three_alerts :: "enriched list" where
  "three_alerts =
     [sample_enriched ''beibei-spia-1'' (JStr ''green'') 400,
      sample_enriched ''beibei-spia-2'' (JStr ''red'') 400,
      sample_enriched ''beibei-spia-3'' (JStr ''yellow'') 400]"

text \<open>
  A reports directory with two \<^verbatim>\<open>zona\<close> reports (the second one newer) and nothing else,
  and a bundled sample file that knows \<^verbatim>\<open>spia\<close> only.
\<close>

definition demo_fs :: fs where
  "demo_fs =
     \<lparr>reports_dir = ''/reports'',
      glob = (\<lambda>p. if p = ''/reports/zona-*.json''
                  then [''/reports/zona-2026-01-31.json'', ''/reports/zona-2026-02-01.json'']
                  else []),
      getmtime = (\<lambda>f. if f = ''/reports/zona-2026-01-31.json'' then Some 1769900000
                      else if f = ''/reports/zona-2026-02-01.json'' then Some 1769990000
                      else None),
      read_json = (\<lambda>f. if f = ''/reports/zona-2026-02-01.json''
                       then Some (JObj [(''date'', JStr ''2026-02-01''), (''severity'', JStr ''red'')])
                       else None),
      sample_reports_file =
        Some (JObj [(''spia'', JObj [(''date'', JStr ''2026-01-15''), (''severity'', JStr ''green'')])])\<rparr>"

text \<open>
  A store whose remote side is configured and whose every POST fails, a request that
  approves a fix (and tries to set its own status), and a request with the body \<^verbatim>\<open>{}\<close>.
\<close>

definition demo_store :: store where
  "demo_store =
     \<lparr>approvals_file =
        Parsed (JList [JObj [(''alert_id'', JStr ''beibei-zona-77''),
                             (''status'', JStr ''approved'')]]),
      sample_approvals = Unreadable,
      local_writable = True,
      supabase_available = True,
      remote_post = (\<lambda>table rows. Post_raises),
      now_iso = ''2026-02-01T12:00:00+00:00'',
      json_dumps = (\<lambda>v. ''{}'')\<rparr>"

definition demo_request :: request where
  "demo_request =
     \<lparr>demo_arg = None,
      referrer = Some ''https://dashboard.example/dashboard'',
      body = JObj [(''alert_id'', JStr ''beibei-annunci-35''),
                   (''fix_action'', JStr ''pause_campaign''),
                   (''status'', JStr ''rejected'')]\<rparr>"

definition empty_request :: request where
  "empty_request = \<lparr>demo_arg = None, referrer = None, body = JObj []\<rparr>"

text \<open>
  A finding that no ASCII lower-casing matches: \<^verbatim>\<open>RAN\<close>, U+212A KELVIN SIGN (bytes E2 84
  AA), \<^verbatim>\<open>ING POORLY\<close>. \<^verbatim>\<open>str.lower()\<close> turns it into \<^verbatim>\<open>ranking poorly\<close>.
\<close>

definition kelvin_finding :: string where
  "kelvin_finding =
     ''RAN'' @ [char_of (226::nat), char_of (132::nat), char_of (170::nat)] @ ''ING POORLY''"

section \<open>Properties of the enrichment engine\<close>

subsection \<open>Conversions to text\<close>

lemma length_show_nat: "0 < k \<Longrightarrow> m < 10 ^ k \<Longrightarrow> length (show_nat m) \<le> k"
proof (induction k arbitrary: m)
  case 0
  then show ?case by simp
next
  case (Suc k)
  show ?case
  proof (cases "m < 10")
    case True
    then show ?thesis by (simp add: show_nat.simps [of m])
  next
    case False
    with Suc.prems have k: "0 < k" by (cases k) simp_all
    from Suc.prems have "m div 10 < 10 ^ k" by (simp add: less_mult_imp_div_less)
    from Suc.IH [OF k this] False show ?thesis by (simp add: show_nat.simps [of m])
  qed
qed

lemma int_ok_small: "\<bar>i\<bar> < 10000 \<Longrightarrow> int_ok env i"
proof -
  assume "\<bar>i\<bar> < 10000"
  then have "nat \<bar>i\<bar> < 10 ^ 4" by simp
  then have "length (show_nat (nat \<bar>i\<bar>)) \<le> 4" by (intro length_show_nat) simp_all
  then show ?thesis by (simp add: int_ok_def num_digits_def)
qed

lemma show_int_ok: "int_ok env i \<Longrightarrow> show_int env i = Inr (digits_int i)"
  by (simp add: show_int_def)

lemma show_int_hash: "\<exists>s. show_int env (\<bar>h\<bar> mod 10000) = Inr s"
proof -
  have "\<bar>\<bar>h\<bar> mod 10000\<bar> < 10000" by simp
  then show ?thesis by (simp add: show_int_ok int_ok_small)
qed

lemma py_str_ok: "str_ok env v \<Longrightarrow> \<exists>s. py_str env v = Inr s"
proof (cases v)
  case (JList xs)
  assume "str_ok env v"
  with JList show ?thesis by (cases "repr_container env (JList xs)") simp_all
next
  case (JObj d)
  assume "str_ok env v"
  with JObj show ?thesis by (cases "repr_container env (JObj d)") simp_all
qed (simp_all add: show_int_ok)

lemma show_nat_nonempty: "show_nat m \<noteq> []"
  by (simp add: show_nat.simps [of m])

lemma length_show_nat_lower: "10 ^ k \<le> m \<Longrightarrow> k < length (show_nat m)"
proof (induction k arbitrary: m)
  case 0
  then show ?case using show_nat_nonempty [of m] by (cases "show_nat m") simp_all
next
  case (Suc k)
  have "(10::nat) * 1 \<le> 10 * 10 ^ k" by (rule mult_le_mono2) simp
  moreover from Suc.prems have "10 * 10 ^ k \<le> m" by simp
  ultimately have big: "\<not> m < 10" by linarith
  from Suc.prems have "10 ^ k \<le> m div 10" by (simp add: less_eq_div_iff_mult_less_eq mult.commute)
  from Suc.IH [OF this] have "k < length (show_nat (m div 10))" .
  with big show ?case by (simp add: show_nat.simps [of m])
qed

subsection \<open>Well-typed inputs are enriched without an exception\<close>

lemma field_ok_get: "field_ok d k P \<Longrightarrow> P dflt \<Longrightarrow> P (dict_get d k dflt)"
  by (simp add: field_ok_def dict_get_def split: option.splits)

lemma scan_school_total:
  "list_all (campaign_ok env) cs \<Longrightarrow>
     \<exists>r. scan_school cs = Inr r \<and> (case r of None \<Rightarrow> True | Some nm \<Rightarrow> str_ok env nm)"
proof (induction cs)
  case Nil
  show ?case by simp
next
  case (Cons c cs)
  from Cons.prems have c: "campaign_ok env c" and rest: "list_all (campaign_ok env) cs"
    by simp_all
  from Cons.IH [OF rest] obtain r where r: "scan_school cs = Inr r"
    "case r of None \<Rightarrow> True | Some nm \<Rightarrow> str_ok env nm" by blast
  from c obtain d where d: "c = JObj d" and sp: "field_ok d ''spend'' is_num"
    and nm: "field_ok d ''name'' (str_ok env)"
    by (auto simp: campaign_ok_def split: json.splits)
  from sp obtain k where k: "as_num (dict_get d ''spend'' (JInt 0)) = Some k"
    by (auto simp: field_ok_def dict_get_def is_num_def split: option.splits)
  from nm have "str_ok env (dict_get d ''name'' (JStr ''''))" by (rule field_ok_get) simp
  then show ?case using d k r by (auto simp: py_gt_def split: bool.splits)
qed

lemma scan_breakdown_total:
  "list_all (campaigns_ok env) ss \<Longrightarrow> str_ok env nm \<Longrightarrow>
     \<exists>r. scan_breakdown nm ss = Inr r \<and> str_ok env r"
proof (induction ss arbitrary: nm)
  case Nil
  then show ?case by simp
next
  case (Cons s ss)
  from Cons.prems obtain cs where s: "s = JList cs" and cs: "list_all (campaign_ok env) cs"
    by (auto simp: campaigns_ok_def split: json.splits)
  from Cons.prems have rest: "list_all (campaigns_ok env) ss" by simp
  from scan_school_total [OF cs] obtain r where r: "scan_school cs = Inr r"
    "case r of None \<Rightarrow> True | Some n \<Rightarrow> str_ok env n" by blast
  show ?case
  proof (cases r)
    case None
    with s r Cons.IH [OF rest Cons.prems(2)] show ?thesis by simp
  next
    case (Some n)
    with r have "str_ok env n" by simp
    from Cons.IH [OF rest this] s r Some show ?thesis by simp
  qed
qed

lemma find_campaign_total:
  "wf_report env report \<Longrightarrow> \<exists>r. find_campaign report = Inr r \<and> str_ok env r"
proof -
  assume wf: "wf_report env report"
  then obtain r where r: "report = JObj r"
    and cb: "field_ok r ''campaign_breakdown'' (breakdown_ok env)"
    by (auto simp: wf_report_def split: json.splits)
  show ?thesis
  proof (cases "map_of r ''campaign_breakdown''")
    case None
    then show ?thesis using r by (simp add: find_campaign_def py_get_def dict_get_def)
  next
    case (Some v)
    with cb have "breakdown_ok env v" by (simp add: field_ok_def)
    then obtain schools where v: "v = JObj schools"
      and ok: "list_all (campaigns_ok env) (map snd schools)"
      by (auto simp: breakdown_ok_def split: json.splits)
    have "str_ok env (JStr '''')" by simp
    from scan_breakdown_total [OF ok this] obtain x where
      "scan_breakdown (JStr []) (map snd schools) = Inr x" "str_ok env x" by blast
    then show ?thesis using r Some v by (simp add: find_campaign_def py_get_def dict_get_def)
  qed
qed

lemma map_of_list_all: "list_all P (map snd kvs) \<Longrightarrow> map_of kvs k = Some v \<Longrightarrow> P v"
  by (induction kvs) (auto split: if_splits)

lemma pages_field_total:
  assumes "wf_report env report" and "hashable sch"
    and "field = ''pages_live'' \<or> field = ''pages_indexed''"
  shows "\<exists>s. pages_field env report sch field = Inr s"
proof -
  from assms(1) obtain r where r: "report = JObj r" and m: "field_ok r ''metrics'' (metrics_ok env)"
    by (auto simp: wf_report_def split: json.splits)
  obtain ms where ms: "dict_get r ''metrics'' (JObj []) = JObj ms"
    and ok: "list_all (pages_ok env) (map snd ms)"
    using m by (cases "map_of r ''metrics''")
       (auto simp: field_ok_def dict_get_def metrics_ok_def split: json.splits)
  have e: "pages_ok env (JObj [])" by (simp add: pages_ok_def field_ok_def)
  have "pages_ok env (case sch of JStr k \<Rightarrow> dict_get ms k (JObj []) | _ \<Rightarrow> JObj [])"
    using ok e by (cases sch) (auto simp: dict_get_def split: option.splits dest: map_of_list_all)
  then obtain d where
    d: "(case sch of JStr k \<Rightarrow> dict_get ms k (JObj []) | _ \<Rightarrow> JObj []) = JObj d"
    and f: "field_ok d ''pages_live'' (str_ok env)" "field_ok d ''pages_indexed'' (str_ok env)"
    by (auto simp: pages_ok_def split: json.splits)
  from f assms(3) have "str_ok env (dict_get d field (JStr ''?''))"
    by (auto intro: field_ok_get)
  from py_str_ok [OF this] obtain s where "py_str env (dict_get d field (JStr ''?'')) = Inr s" ..
  then show ?thesis using r ms d assms(2)
    by (simp add: pages_field_def py_get_def)
qed

lemma apply_rule_total:
  assumes "wf_report env report" and "hashable sch" and "str_ok env impact"
    and "int_ok env (n * 4)"
  shows "\<exists>t. apply_rule env r report raw sch impact n = Inr t"
proof (cases r)
  case Annunci_zero_conversions
  from find_campaign_total [OF assms(1)] obtain c where
    c: "find_campaign report = Inr c" "str_ok env c" by blast
  from py_str_ok [OF c(2)] obtain cn where cn: "py_str env c = Inr cn" ..
  from py_str_ok [OF assms(3)] obtain sp where sp: "py_str env impact = Inr sp" ..
  show ?thesis using Annunci_zero_conversions c cn sp assms(4)
    by (simp add: rule_annunci_zero_conversions_def show_int_ok)
next
  case Zona_deindex
  from pages_field_total [OF assms(1,2)] obtain l where
    l: "pages_field env report sch ''pages_live'' = Inr l" by blast
  from pages_field_total [OF assms(1,2)] obtain i where
    i: "pages_field env report sch ''pages_indexed'' = Inr i" by blast
  show ?thesis using Zona_deindex l i assms(4) by (simp add: rule_zona_deindex_def show_int_ok)
qed (simp_all add: show_int_ok assms(4))

lemma apply_rule_nonempty:
  "apply_rule env r report raw sch impact n = Inr (w, ev, fx) \<Longrightarrow> w \<noteq> [] \<and> ev \<noteq> [] \<and> fx \<noteq> []"
  by (cases r)
     (auto simp: rule_annunci_zero_conversions_def rule_zona_deindex_def split: sum.splits)

subsection \<open>What a returned record holds\<close>

lemma impact_ok_default: "impact_ok env (JInt 0)"
  by (simp add: impact_ok_def int_ok_small)

lemma enrich_alert_total:
  assumes "wf_alert env alert" and "wf_report env report"
  shows "\<exists>e. enrich_alert env alert agent_id report = Inr e"
proof -
  from assms(1) obtain a where a: "alert = JObj a"
    and f: "field_ok a ''finding'' is_str"
    and i: "field_ok a ''impact_dollars'' (impact_ok env)"
    and s: "field_ok a ''school'' (school_ok env)"
    by (auto simp: wf_alert_def split: json.splits)
  from f have "is_str (dict_get a ''finding'' (JStr ''''))" by (rule field_ok_get) simp
  then obtain raw where raw: "dict_get a ''finding'' (JStr '''') = JStr raw"
    by (cases "dict_get a ''finding'' (JStr '''')") simp_all
  from i have "impact_ok env (dict_get a ''impact_dollars'' (JInt 0))"
    by (rule field_ok_get) (rule impact_ok_default)
  then obtain n where n: "as_num (dict_get a ''impact_dollars'' (JInt 0)) = Some n"
    and si: "str_ok env (dict_get a ''impact_dollars'' (JInt 0))"
    and n4: "int_ok env (n * 4)"
    by (auto simp: impact_ok_def split: option.splits)
  from s have "school_ok env (dict_get a ''school'' (JStr ''unknown''))"
    by (rule field_ok_get) (simp add: school_ok_def)
  then have h: "hashable (dict_get a ''school'' (JStr ''unknown''))"
    and ss: "str_ok env (dict_get a ''school'' (JStr ''unknown''))"
    by (simp_all add: school_ok_def)
  from py_str_ok [OF ss] obtain st where
    st: "py_str env (dict_get a ''school'' (JStr ''unknown'')) = Inr st" ..
  from show_int_hash obtain sx where
    sx: "show_int env (\<bar>hash_str env raw\<bar> mod 10000) = Inr sx" ..
  show ?thesis
  proof (cases "match_rule agent_id (py_lower env raw)")
    case None
    then show ?thesis using a raw n st sx by (simp add: enrich_alert_def Let_def)
  next
    case (Some r)
    from apply_rule_total [OF assms(2) h si n4] obtain t where
      "apply_rule env r report raw (dict_get a ''school'' (JStr ''unknown''))
         (dict_get a ''impact_dollars'' (JInt 0)) n = Inr t" by blast
    then show ?thesis using a raw n st sx Some
      by (cases t) (simp add: enrich_alert_def Let_def)
  qed
qed

lemma enrich_alert_base:
  assumes "enrich_alert env alert agent_id report = Inr e"
  shows "\<exists>a raw n. alert = JObj a \<and> dict_get a ''finding'' (JStr '''') = JStr raw \<and>
           as_num (dict_get a ''impact_dollars'' (JInt 0)) = Some n \<and>
           agent e = agent_id \<and> title e = raw \<and>
           level e = dict_get a ''level'' (JStr ''yellow'') \<and>
           school e = dict_get a ''school'' (JStr ''unknown'') \<and>
           assigned_to e = dict_get a ''assigned_to'' (JStr agent_id) \<and>
           impact_monthly e = (if 0 < n then n * 4 else 0) \<and>
           impact_type e =
             (if (agent_id = ''annunci'' \<or> agent_id = ''bussola'') \<and> 0 < n
              then ''confirmed'' else ''estimated'')"
proof -
  from assms obtain a where a: "alert = JObj a"
    by (cases alert) (simp_all add: enrich_alert_def)
  from assms a obtain raw where raw: "dict_get a ''finding'' (JStr '''') = JStr raw"
    by (cases "dict_get a ''finding'' (JStr '''')") (simp_all add: enrich_alert_def)
  from assms a raw obtain n where n: "as_num (dict_get a ''impact_dollars'' (JInt 0)) = Some n"
    by (cases "as_num (dict_get a ''impact_dollars'' (JInt 0))")
       (simp_all add: enrich_alert_def Let_def split: sum.splits)
  have "agent e = agent_id \<and> title e = raw \<and>
           level e = dict_get a ''level'' (JStr ''yellow'') \<and>
           school e = dict_get a ''school'' (JStr ''unknown'') \<and>
           assigned_to e = dict_get a ''assigned_to'' (JStr agent_id) \<and>
           impact_monthly e = (if 0 < n then n * 4 else 0) \<and>
           impact_type e =
             (if (agent_id = ''annunci'' \<or> agent_id = ''bussola'') \<and> 0 < n
              then ''confirmed'' else ''estimated'')"
    using assms a raw n
    by (auto simp: enrich_alert_def Let_def default_fallback_def
             split: option.splits sum.splits if_splits)
  with a raw n show ?thesis by blast
qed

lemma enrich_alert_unmatched:
  assumes "enrich_alert env (JObj a) agent_id report = Inr e"
    and "dict_get a ''finding'' (JStr '''') = JStr raw"
    and "match_rule agent_id (py_lower env raw) = None"
  shows "why e = dict_get a ''action_required''
                   (JStr ''Investigation needed to determine root cause.'') \<and>
         evidence e = [raw] \<and>
         fixes e = [\<lparr>description = dict_get a ''action_required'' (JStr ''Review and take action''),
                     action_type = ''manual_review'', estimated_impact = ''TBD'',
                     assigned_agent = dict_get a ''assigned_to'' (JStr agent_id),
                     campaign = None\<rparr>]"
  using assms
  by (auto simp: enrich_alert_def Let_def default_fallback_def split: option.splits sum.splits)

lemma enrich_alert_matched:
  assumes "enrich_alert env (JObj a) agent_id report = Inr e"
    and "dict_get a ''finding'' (JStr '''') = JStr raw"
    and "match_rule agent_id (py_lower env raw) = Some r"
  shows "\<exists>n w ev fx. as_num (dict_get a ''impact_dollars'' (JInt 0)) = Some n \<and>
           apply_rule env r report raw (dict_get a ''school'' (JStr ''unknown''))
             (dict_get a ''impact_dollars'' (JInt 0)) n = Inr (w, ev, fx) \<and>
           why e = JStr w \<and> evidence e = ev \<and> fixes e = fx"
proof -
  from assms obtain n where n: "as_num (dict_get a ''impact_dollars'' (JInt 0)) = Some n"
    by (cases "as_num (dict_get a ''impact_dollars'' (JInt 0))")
       (simp_all add: enrich_alert_def Let_def split: sum.splits)
  from assms n obtain w ev fx where t:
    "apply_rule env r report raw (dict_get a ''school'' (JStr ''unknown''))
       (dict_get a ''impact_dollars'' (JInt 0)) n = Inr (w, ev, fx)"
    by (cases "apply_rule env r report raw (dict_get a ''school'' (JStr ''unknown''))
                 (dict_get a ''impact_dollars'' (JInt 0)) n")
       (auto simp: enrich_alert_def Let_def split: sum.splits)
  from apply_rule_nonempty [OF t] have "w \<noteq> []" by simp
  then have "why e = JStr w \<and> evidence e = ev \<and> fixes e = fx"
    using assms n t by (auto simp: enrich_alert_def Let_def default_fallback_def split: sum.splits)
  with n t show ?thesis by blast
qed

lemma demo_env_limit: "int_max_str_digits demo_env = 4300"
  by (simp add: demo_env_def)

lemma wf_zero_conv_alert: "wf_alert env zero_conv_alert"
  by (simp add: wf_alert_def zero_conv_alert_def field_ok_def impact_ok_def school_ok_def
        int_ok_small)

lemma wf_unmatched_alert: "wf_alert env unmatched_alert"
  by (simp add: wf_alert_def unmatched_alert_def field_ok_def)

lemma wf_demo_report: "wf_report env demo_report"
  by (simp add: wf_report_def demo_report_def field_ok_def breakdown_ok_def campaigns_ok_def
        campaign_ok_def is_num_def)

lemma py_lower_ascii: "list_all is_ascii s \<Longrightarrow> py_lower env s = map lower_char s"
  by (simp add: py_lower_def)

lemma match_zero_conv:
  "match_rule ''annunci'' (py_lower env ''Zero conversions despite $420 spend'') =
     Some Annunci_zero_conversions"
  by (simp add: match_rule_def py_lower_def is_ascii_def lower_char_def)

lemma match_unusual:
  "match_rule agent_id (py_lower env ''Unusual pattern observed'') = None"
  by (simp add: match_rule_def py_lower_def is_ascii_def lower_char_def)

subsection \<open>Lower-casing and the digit limit\<close>

text \<open>
  With the Unicode lower-casing the Kelvin-sign finding fires the \<^verbatim>\<open>spia\<close> ranking rule,
  and an \<^verbatim>\<open>impact_dollars\<close> whose fourfold has too many digits makes the f-string of the
  \<^verbatim>\<open>zona\<close> rule raise \<^verbatim>\<open>ValueError\<close>.
\<close>

lemma kelvin_sign_fires_rule:
  assumes "lower_non_ascii env kelvin_finding = ''ranking poorly''"
  shows "match_rule ''spia'' (py_lower env kelvin_finding) = Some Spia_ranking"
proof -
  have "\<not> list_all is_ascii kelvin_finding"
    by (simp add: kelvin_finding_def is_ascii_def)
  then have "py_lower env kelvin_finding = ''ranking poorly''"
    using assms by (simp add: py_lower_def)
  then show ?thesis by (simp add: match_rule_def)
qed

lemma oversized_impact_raises:
  assumes "0 < int_max_str_digits env" and "640 < num_digits (n * 4)"
    and "int_max_str_digits env < num_digits (n * 4)"
  shows "enrich_alert env
           (JObj [(''finding'', JStr ''Zero results for preschool near me''),
                  (''school'', JStr ''beibei''), (''impact_dollars'', JInt n)])
           ''zona'' report = Inl ValueError"
proof -
  from assms have bad: "\<not> int_ok env (n * 4)" by (simp add: int_ok_def)
  from show_int_hash obtain sx where sx:
    "show_int env (\<bar>hash_str env ''Zero results for preschool near me''\<bar> mod 10000) = Inr sx" ..
  have m: "match_rule ''zona'' (py_lower env ''Zero results for preschool near me'') =
             Some Zona_zero_results"
    by (simp add: match_rule_def py_lower_def is_ascii_def lower_char_def)
  show ?thesis using sx m bad
    by (simp add: enrich_alert_def dict_get_def Let_def show_int_def)
qed

subsection \<open>Monthly impact\<close>

text \<open>
  C1. Enrichment returns a record for every well-typed alert and report, and in every
  record it returns \<open>impact_monthly\<close> is four times \<^verbatim>\<open>impact_dollars\<close> when that is
  positive and 0 when it is 0; an absent \<^verbatim>\<open>impact_dollars\<close> reads as 0.
\<close>

theorem impact_monthly_is_four_times_impact:
  "(wf_alert env alert \<and> wf_report env report \<longrightarrow>
      (\<exists>e. enrich_alert env alert agent_id report = Inr e)) \<and>
   (\<forall>e. enrich_alert env alert agent_id report = Inr e \<longrightarrow>
      (\<exists>a n. alert = JObj a \<and> as_num (dict_get a ''impact_dollars'' (JInt 0)) = Some n \<and>
             (map_of a ''impact_dollars'' = None \<longrightarrow> n = 0) \<and>
             (0 < n \<longrightarrow> impact_monthly e = n * 4) \<and>
             (n = 0 \<longrightarrow> impact_monthly e = 0)))"
proof (intro conjI allI impI)
  assume "wf_alert env alert \<and> wf_report env report"
  then show "\<exists>e. enrich_alert env alert agent_id report = Inr e"
    by (simp add: enrich_alert_total)
next
  fix e
  assume "enrich_alert env alert agent_id report = Inr e"
  from enrich_alert_base [OF this] obtain a raw n where
    "alert = JObj a" "as_num (dict_get a ''impact_dollars'' (JInt 0)) = Some n"
    "impact_monthly e = (if 0 < n then n * 4 else 0)"
    by blast
  moreover from this(2) have "map_of a ''impact_dollars'' = None \<longrightarrow> n = 0"
    by (auto simp: dict_get_def)
  ultimately show "\<exists>a n. alert = JObj a \<and>
      as_num (dict_get a ''impact_dollars'' (JInt 0)) = Some n \<and>
      (map_of a ''impact_dollars'' = None \<longrightarrow> n = 0) \<and>
      (0 < n \<longrightarrow> impact_monthly e = n * 4) \<and> (n = 0 \<longrightarrow> impact_monthly e = 0)"
    by auto
qed

theorem impact_monthly_is_four_times_impact_witness:
  "wf_alert demo_env zero_conv_alert \<and> wf_report demo_env demo_report \<and>
   (\<exists>e. enrich_alert demo_env zero_conv_alert ''annunci'' demo_report = Inr e \<and>
        impact_monthly e = 1680)"
proof -
  note th = impact_monthly_is_four_times_impact
    [where alert = zero_conv_alert and report = demo_report and env = demo_env
       and agent_id = "''annunci''"]
  from th wf_zero_conv_alert wf_demo_report obtain e where
    e: "enrich_alert demo_env zero_conv_alert ''annunci'' demo_report = Inr e" by blast
  from th e obtain a n where an: "zero_conv_alert = JObj a"
    "as_num (dict_get a ''impact_dollars'' (JInt 0)) = Some n"
    "0 < n \<longrightarrow> impact_monthly e = n * 4" by blast
  from an(1,2) have "n = 420" by (auto simp: zero_conv_alert_def dict_get_def)
  with an(3) have "impact_monthly e = 1680" by simp
  with e wf_zero_conv_alert wf_demo_report show ?thesis by blast
qed



subsection \<open>Confirmed and estimated impact\<close>

text \<open>
  C2. In every record enrichment returns, \<open>impact_type\<close> is \<^verbatim>\<open>"confirmed"\<close> exactly when the
  agent is \<^verbatim>\<open>annunci\<close> or \<^verbatim>\<open>bussola\<close> and \<^verbatim>\<open>impact_dollars\<close> is positive, and
  \<^verbatim>\<open>"estimated"\<close> in every other case; a record is returned for every well-typed input.
\<close>

theorem impact_type_confirmed_iff:
  "(wf_alert env alert \<and> wf_report env report \<longrightarrow>
      (\<exists>e. enrich_alert env alert agent_id report = Inr e)) \<and>
   (\<forall>e. enrich_alert env alert agent_id report = Inr e \<longrightarrow>
      (\<exists>a n. alert = JObj a \<and> as_num (dict_get a ''impact_dollars'' (JInt 0)) = Some n \<and>
             (impact_type e = ''confirmed'' \<longleftrightarrow>
                (agent_id = ''annunci'' \<or> agent_id = ''bussola'') \<and> 0 < n) \<and>
             (impact_type e = ''confirmed'' \<or> impact_type e = ''estimated'')))"
proof (intro conjI allI impI)
  assume "wf_alert env alert \<and> wf_report env report"
  then show "\<exists>e. enrich_alert env alert agent_id report = Inr e"
    by (simp add: enrich_alert_total)
next
  fix e
  assume "enrich_alert env alert agent_id report = Inr e"
  from enrich_alert_base [OF this] obtain a raw n where
    "alert = JObj a" "as_num (dict_get a ''impact_dollars'' (JInt 0)) = Some n"
    "impact_type e =
       (if (agent_id = ''annunci'' \<or> agent_id = ''bussola'') \<and> 0 < n
        then ''confirmed'' else ''estimated'')"
    by blast
  then show "\<exists>a n. alert = JObj a \<and>
      as_num (dict_get a ''impact_dollars'' (JInt 0)) = Some n \<and>
      (impact_type e = ''confirmed'' \<longleftrightarrow>
         (agent_id = ''annunci'' \<or> agent_id = ''bussola'') \<and> 0 < n) \<and>
      (impact_type e = ''confirmed'' \<or> impact_type e = ''estimated'')"
    by auto
qed

theorem impact_type_confirmed_iff_witness:
  "wf_alert demo_env zero_conv_alert \<and> wf_report demo_env demo_report \<and>
   (\<exists>e. enrich_alert demo_env zero_conv_alert ''bussola'' demo_report = Inr e \<and>
        impact_type e = ''confirmed'') \<and>
   (\<exists>e. enrich_alert demo_env zero_conv_alert ''zona'' demo_report = Inr e \<and>
        impact_type e = ''estimated'')"
proof -
  have pos: "\<And>a n. zero_conv_alert = JObj a \<Longrightarrow>
      as_num (dict_get a ''impact_dollars'' (JInt 0)) = Some n \<Longrightarrow> 0 < n"
    by (auto simp: zero_conv_alert_def dict_get_def)
  note b = impact_type_confirmed_iff
    [where alert = zero_conv_alert and report = demo_report and env = demo_env
       and agent_id = "''bussola''"]
  from b wf_zero_conv_alert wf_demo_report obtain e where
    e: "enrich_alert demo_env zero_conv_alert ''bussola'' demo_report = Inr e" by blast
  from b e pos have "impact_type e = ''confirmed''" by blast
  with e have 1: "\<exists>e. enrich_alert demo_env zero_conv_alert ''bussola'' demo_report = Inr e \<and>
        impact_type e = ''confirmed''" by blast
  note z = impact_type_confirmed_iff
    [where alert = zero_conv_alert and report = demo_report and env = demo_env
       and agent_id = "''zona''"]
  from z wf_zero_conv_alert wf_demo_report obtain e' where
    e': "enrich_alert demo_env zero_conv_alert ''zona'' demo_report = Inr e'" by blast
  from z e' obtain a n where
    "(impact_type e' = ''confirmed'') = ((''zona'' = ''annunci'' \<or> ''zona'' = ''bussola'') \<and> 0 < n)"
    "impact_type e' = ''confirmed'' \<or> impact_type e' = ''estimated''" by blast
  then have "impact_type e' = ''estimated''" by simp
  with e' have 2: "\<exists>e. enrich_alert demo_env zero_conv_alert ''zona'' demo_report = Inr e \<and>
        impact_type e = ''estimated''" by blast
  from 1 2 wf_zero_conv_alert wf_demo_report show ?thesis by blast
qed

subsection \<open>The zero-conversions scenario\<close>

lemma annunci_zero_first_fix:
  "rule_annunci_zero_conversions env report raw impact n = Inr (w, ev, fx) \<Longrightarrow>
     \<exists>f rest. fx = f # rest \<and> action_type f = ''pause_campaign''"
  by (auto simp: rule_annunci_zero_conversions_def split: sum.splits)

text \<open>
  C4. The alert \<^verbatim>\<open>{finding: "Zero conversions despite $420 spend", school: "beibei",
  level: "red", impact_dollars: 420}\<close> of agent \<^verbatim>\<open>annunci\<close>: whatever the report, a record
  that enrichment returns has \<open>impact_type\<close> \<^verbatim>\<open>"confirmed"\<close>, \<open>impact_monthly\<close> 1680 and a
  non-empty list of fixes that starts with a \<^verbatim>\<open>pause_campaign\<close> fix (the first rule of
  the \<^verbatim>\<open>annunci\<close> chain fires); and a record is returned for every well-typed report.
\<close>

theorem zero_conversions_scenario:
  "(wf_report env report \<longrightarrow>
      (\<exists>e. enrich_alert env zero_conv_alert ''annunci'' report = Inr e)) \<and>
   (\<forall>e. enrich_alert env zero_conv_alert ''annunci'' report = Inr e \<longrightarrow>
      impact_type e = ''confirmed'' \<and> impact_monthly e = 1680 \<and>
      (\<exists>fx rest. fixes e = fx # rest \<and> action_type fx = ''pause_campaign''))"
proof (intro conjI allI impI)
  assume "wf_report env report"
  then show "\<exists>e. enrich_alert env zero_conv_alert ''annunci'' report = Inr e"
    by (simp add: enrich_alert_total wf_zero_conv_alert)
next
  fix e
  assume e: "enrich_alert env zero_conv_alert ''annunci'' report = Inr e"
  from enrich_alert_base [OF e] obtain a raw n where
    "zero_conv_alert = JObj a" "as_num (dict_get a ''impact_dollars'' (JInt 0)) = Some n"
    "impact_monthly e = (if 0 < n then n * 4 else 0)"
    "impact_type e =
       (if (''annunci'' = ''annunci'' \<or> ''annunci'' = ''bussola'') \<and> 0 < n
        then ''confirmed'' else ''estimated'')"
    by blast
  moreover from this(1,2) have "n = 420" by (auto simp: zero_conv_alert_def dict_get_def)
  ultimately show "impact_type e = ''confirmed''" and "impact_monthly e = 1680" by simp_all
next
  fix e
  assume e: "enrich_alert env zero_conv_alert ''annunci'' report = Inr e"
  let ?a = "[(''finding'', JStr ''Zero conversions despite $420 spend''),
           (''school'', JStr ''beibei''), (''level'', JStr ''red''),
           (''impact_dollars'', JInt 420)]"
  have a: "zero_conv_alert = JObj ?a" by (simp add: zero_conv_alert_def)
  have raw: "dict_get ?a ''finding'' (JStr '''') = JStr ''Zero conversions despite $420 spend''"
    by (simp add: dict_get_def)
  from enrich_alert_matched [OF e [unfolded a] raw match_zero_conv]
  obtain n w ev fx where
    "apply_rule env Annunci_zero_conversions report ''Zero conversions despite $420 spend''
       (dict_get ?a ''school'' (JStr ''unknown'')) (dict_get ?a ''impact_dollars'' (JInt 0)) n
       = Inr (w, ev, fx)" "fixes e = fx"
    by blast
  then show "\<exists>fx rest. fixes e = fx # rest \<and> action_type fx = ''pause_campaign''"
    using annunci_zero_first_fix [where env = env and report = report and n = n and w = w
        and ev = ev and fx = fx] by auto
qed

theorem zero_conversions_scenario_witness:
  "wf_report demo_env demo_report \<and>
   (\<exists>e. enrich_alert demo_env zero_conv_alert ''annunci'' demo_report = Inr e \<and>
        impact_type e = ''confirmed'' \<and> impact_monthly e = 1680 \<and>
        (\<exists>fx rest. fixes e = fx # rest \<and> action_type fx = ''pause_campaign''))"
  using zero_conversions_scenario [where report = demo_report and env = demo_env]
    wf_demo_report by blast



subsection \<open>The default fallback\<close>

text \<open>
  C5. For an alert whose finding, lower-cased as \<^verbatim>\<open>str.lower()\<close> does it, matches no rule
  of the agent's chain, every record
  enrichment returns is the generic fallback: \<open>why\<close> is the alert's \<^verbatim>\<open>action_required\<close>
  (the fixed text "Investigation needed to determine root cause." when the field is
  absent), \<open>evidence\<close> is the one-element list of the finding as written, and \<open>fixes\<close> is one
  \<^verbatim>\<open>manual_review\<close> fix assigned to the alert's \<^verbatim>\<open>assigned_to\<close> (the agent itself when
  absent). A record is returned whenever \<^verbatim>\<open>impact_dollars\<close> is a number and the school
  can be converted to text; the report is not read.
\<close>

theorem unmatched_finding_gets_fallback:
  assumes "dict_get a ''finding'' (JStr '''') = JStr raw"
    and "match_rule agent_id (py_lower env raw) = None"
  shows "(is_num (dict_get a ''impact_dollars'' (JInt 0)) \<and>
          str_ok env (dict_get a ''school'' (JStr ''unknown'')) \<longrightarrow>
            (\<exists>e. enrich_alert env (JObj a) agent_id report = Inr e)) \<and>
         (\<forall>e. enrich_alert env (JObj a) agent_id report = Inr e \<longrightarrow>
            why e = (case map_of a ''action_required'' of
                       Some v \<Rightarrow> v
                     | None \<Rightarrow> JStr ''Investigation needed to determine root cause.'') \<and>
            evidence e = [raw] \<and>
            (\<exists>fx. fixes e = [fx] \<and> action_type fx = ''manual_review'' \<and>
                  assigned_agent fx = (case map_of a ''assigned_to'' of
                                         Some v \<Rightarrow> v | None \<Rightarrow> JStr agent_id)))"
proof (intro conjI allI impI)
  assume h: "is_num (dict_get a ''impact_dollars'' (JInt 0)) \<and>
          str_ok env (dict_get a ''school'' (JStr ''unknown''))"
  then obtain n where n: "as_num (dict_get a ''impact_dollars'' (JInt 0)) = Some n"
    by (auto simp: is_num_def)
  from h py_str_ok obtain st where
    st: "py_str env (dict_get a ''school'' (JStr ''unknown'')) = Inr st" by blast
  from show_int_hash obtain sx where
    sx: "show_int env (\<bar>hash_str env raw\<bar> mod 10000) = Inr sx" ..
  from n st sx show "\<exists>e. enrich_alert env (JObj a) agent_id report = Inr e"
    using assms by (simp add: enrich_alert_def Let_def)
next
  fix e
  assume e: "enrich_alert env (JObj a) agent_id report = Inr e"
  note fb = enrich_alert_unmatched [OF e assms]
  from fb show "why e = (case map_of a ''action_required'' of
                       Some v \<Rightarrow> v
                     | None \<Rightarrow> JStr ''Investigation needed to determine root cause.'')"
    by (simp add: dict_get_def)
  from fb show "evidence e = [raw]" by simp
  from fb show "\<exists>fx. fixes e = [fx] \<and> action_type fx = ''manual_review'' \<and>
                  assigned_agent fx = (case map_of a ''assigned_to'' of
                                         Some v \<Rightarrow> v | None \<Rightarrow> JStr agent_id)"
    by (simp add: dict_get_def)
qed

theorem unmatched_finding_gets_fallback_witness:
  "dict_get [(''finding'', JStr ''Unusual pattern observed''),
             (''action_required'', JStr ''Review manually''),
             (''assigned_to'', JStr ''marco'')] ''finding'' (JStr '''')
     = JStr ''Unusual pattern observed'' \<and>
   match_rule ''spia'' (py_lower demo_env ''Unusual pattern observed'') = None \<and>
   (\<exists>e. enrich_alert demo_env unmatched_alert ''spia'' demo_report = Inr e \<and>
        why e = JStr ''Review manually'' \<and>
        evidence e = [''Unusual pattern observed''] \<and>
        (\<exists>fx. fixes e = [fx] \<and> action_type fx = ''manual_review'' \<and>
              assigned_agent fx = JStr ''marco''))"
proof -
  let ?a = "[(''finding'', JStr ''Unusual pattern observed''),
             (''action_required'', JStr ''Review manually''),
             (''assigned_to'', JStr ''marco'')]"
  have raw: "dict_get ?a ''finding'' (JStr '''') = JStr ''Unusual pattern observed''"
    by (simp add: dict_get_def)
  have num: "is_num (dict_get ?a ''impact_dollars'' (JInt 0)) \<and>
      str_ok demo_env (dict_get ?a ''school'' (JStr ''unknown''))"
    by (simp add: dict_get_def is_num_def)
  note th = unmatched_finding_gets_fallback
    [where agent_id = "''spia''" and env = demo_env and report = demo_report,
     OF raw match_unusual]
  from th num obtain e where
    e: "enrich_alert demo_env (JObj ?a) ''spia'' demo_report = Inr e" by blast
  from th e have "why e = JStr ''Review manually'' \<and>
        evidence e = [''Unusual pattern observed''] \<and>
        (\<exists>fx. fixes e = [fx] \<and> action_type fx = ''manual_review'' \<and>
              assigned_agent fx = JStr ''marco'')"
    by simp
  with e raw match_unusual [where agent_id = "''spia''" and env = demo_env] show ?thesis
    by (auto simp: unmatched_alert_def)
qed

subsection \<open>Totality\<close>

text \<open>
  C9, as the claim states it, fails: a field of the wrong kind is not replaced by a
  default. An \<^verbatim>\<open>impact_dollars\<close> that is a string makes \<^verbatim>\<open>impact > 0\<close> raise
  \<^verbatim>\<open>TypeError\<close>.
\<close>

theorem malformed_impact_raises:
  "enrich_alert demo_env malformed_alert ''annunci'' demo_report = Inl TypeError"
proof -
  from show_int_hash obtain sx where
    "show_int demo_env (\<bar>hash_str demo_env ''Spend anomaly''\<bar> mod 10000) = Inr sx" ..
  then show ?thesis
    by (simp add: enrich_alert_def malformed_alert_def dict_get_def Let_def)
qed

text \<open>
  C9, amended. For every alert record whose \<^verbatim>\<open>finding\<close>, when present, is a string,
  whose \<^verbatim>\<open>impact_dollars\<close>, when present, is a number that can be converted to text, as
  can four times it, and whose \<^verbatim>\<open>school\<close>, when present, is hashable and convertible to
  text, and for every report that is a dict whose \<^verbatim>\<open>campaign_breakdown\<close> and \<^verbatim>\<open>metrics\<close>,
  when present, are well-formed (\<open>wf_report\<close>), enrichment returns a record; every absent
  field takes the default of its \<^verbatim>\<open>.get\<close>: an empty title, school \<^verbatim>\<open>"unknown"\<close>, level
  \<^verbatim>\<open>"yellow"\<close>, no impact, and the agent as assignee. An int is convertible to text when
  its digits do not exceed the interpreter's limit (4300 by default).
\<close>

theorem well_typed_input_is_enriched:
  assumes "wf_alert env (JObj a)" and "wf_report env report"
  shows "\<exists>e. enrich_alert env (JObj a) agent_id report = Inr e \<and>
           (map_of a ''finding'' = None \<longrightarrow> title e = '''') \<and>
           (map_of a ''school'' = None \<longrightarrow> school e = JStr ''unknown'') \<and>
           (map_of a ''level'' = None \<longrightarrow> level e = JStr ''yellow'') \<and>
           (map_of a ''impact_dollars'' = None \<longrightarrow> impact_monthly e = 0) \<and>
           (map_of a ''assigned_to'' = None \<longrightarrow> assigned_to e = JStr agent_id)"
proof -
  from enrich_alert_total [OF assms] obtain e where
    e: "enrich_alert env (JObj a) agent_id report = Inr e" ..
  from enrich_alert_base [OF e] obtain raw n where
    "dict_get a ''finding'' (JStr '''') = JStr raw"
    "as_num (dict_get a ''impact_dollars'' (JInt 0)) = Some n"
    "title e = raw"
    "level e = dict_get a ''level'' (JStr ''yellow'')"
    "school e = dict_get a ''school'' (JStr ''unknown'')"
    "assigned_to e = dict_get a ''assigned_to'' (JStr agent_id)"
    "impact_monthly e = (if 0 < n then n * 4 else 0)"
    by blast
  then have "(map_of a ''finding'' = None \<longrightarrow> title e = '''') \<and>
           (map_of a ''school'' = None \<longrightarrow> school e = JStr ''unknown'') \<and>
           (map_of a ''level'' = None \<longrightarrow> level e = JStr ''yellow'') \<and>
           (map_of a ''impact_dollars'' = None \<longrightarrow> impact_monthly e = 0) \<and>
           (map_of a ''assigned_to'' = None \<longrightarrow> assigned_to e = JStr agent_id)"
    by (auto simp: dict_get_def split: option.splits)
  with e show ?thesis by (intro exI [where x = e]) simp
qed

theorem well_typed_input_is_enriched_witness:
  "wf_alert demo_env (JObj [(''finding'', JStr ''Bounce rate above 80%'')]) \<and> wf_report demo_env (JObj []) \<and>
   (\<exists>e. enrich_alert demo_env (JObj [(''finding'', JStr ''Bounce rate above 80%'')])
           ''bussola'' (JObj []) = Inr e \<and>
        school e = JStr ''unknown'' \<and> level e = JStr ''yellow'' \<and> impact_monthly e = 0 \<and>
        assigned_to e = JStr ''bussola'')"
proof -
  have wa: "wf_alert demo_env (JObj [(''finding'', JStr ''Bounce rate above 80%'')])"
    by (simp add: wf_alert_def field_ok_def)
  have wr: "wf_report demo_env (JObj [])" by (simp add: wf_report_def field_ok_def)
  from well_typed_input_is_enriched [OF wa wr, where agent_id = "''bussola''"] wa wr
  show ?thesis by auto
qed

subsection \<open>Evidence and fixes are never empty\<close>

text \<open>
  C10. Every record enrichment returns has at least one evidence entry and at least one
  fix: a rule that fired wrote both, and otherwise the fallback did. A record is returned
  for every well-typed input.
\<close>

theorem enriched_never_empty:
  "(wf_alert env alert \<and> wf_report env report \<longrightarrow>
      (\<exists>e. enrich_alert env alert agent_id report = Inr e)) \<and>
   (\<forall>e. enrich_alert env alert agent_id report = Inr e \<longrightarrow>
      evidence e \<noteq> [] \<and> fixes e \<noteq> [])"
proof (intro conjI allI impI)
  assume "wf_alert env alert \<and> wf_report env report"
  then show "\<exists>e. enrich_alert env alert agent_id report = Inr e"
    by (simp add: enrich_alert_total)
next
  fix e
  assume e: "enrich_alert env alert agent_id report = Inr e"
  from enrich_alert_base [OF e] obtain a raw where
    a: "alert = JObj a" and raw: "dict_get a ''finding'' (JStr '''') = JStr raw" by blast
  have "evidence e \<noteq> [] \<and> fixes e \<noteq> []"
  proof (cases "match_rule agent_id (py_lower env raw)")
    case None
    from enrich_alert_unmatched [OF e [unfolded a] raw None] show ?thesis by simp
  next
    case (Some r)
    from enrich_alert_matched [OF e [unfolded a] raw Some] obtain n w ev fx where
      t: "apply_rule env r report raw (dict_get a ''school'' (JStr ''unknown''))
            (dict_get a ''impact_dollars'' (JInt 0)) n = Inr (w, ev, fx)"
      and "evidence e = ev" "fixes e = fx" by blast
    with apply_rule_nonempty [OF t] show ?thesis by simp
  qed
  then show "evidence e \<noteq> []" and "fixes e \<noteq> []" by simp_all
qed

theorem enriched_never_empty_witness:
  "wf_alert demo_env unmatched_alert \<and> wf_report demo_env demo_report \<and>
   (\<exists>e. enrich_alert demo_env unmatched_alert ''zona'' demo_report = Inr e \<and>
        evidence e \<noteq> [] \<and> fixes e \<noteq> [])"
  using enriched_never_empty
    [where alert = unmatched_alert and report = demo_report and env = demo_env
       and agent_id = "''zona''"]
    wf_unmatched_alert wf_demo_report by blast



section \<open>Properties of the severity ranking\<close>

lemma level_order_red: "level_order l = 0 \<longleftrightarrow> l = JStr ''red''"
  by (cases l) (simp_all add: level_order_def)

lemma level_order_yellow: "level_order l = 1 \<longleftrightarrow> l = JStr ''yellow''"
  by (cases l) (simp_all add: level_order_def)

lemma level_order_green: "level_order l = 2 \<longleftrightarrow> l = JStr ''green''"
  by (cases l) (simp_all add: level_order_def)

lemma level_order_le_3: "level_order l \<le> 3"
  by (cases l) (simp_all add: level_order_def)

lemma level_order_unknown: "level_order l = 3 \<longleftrightarrow> \<not> known_level l"
  by (cases l) (auto simp: level_order_def known_level_def)

lemma rank_alerts_Inr:
  "rank_alerts xs = Inr ys \<longleftrightarrow>
     list_all (\<lambda>a. hashable (level a)) xs \<and> ys = sort_key alert_key xs"
  by (auto simp: rank_alerts_def list_ex_iff list_all_iff)

lemma sort_key_nth_mono:
  assumes "i < j" "j < length xs"
  shows "f (sort_key f xs ! i) \<le> f (sort_key f xs ! j)"
proof -
  have "sorted (map f (sort_key f xs))" by (rule sorted_sort_key)
  moreover have "i \<le> j" "j < length (map f (sort_key f xs))" using assms by simp_all
  ultimately have "map f (sort_key f xs) ! i \<le> map f (sort_key f xs) ! j"
    by (rule sorted_nth_mono)
  then show ?thesis using assms by simp
qed

lemma alert_key_le:
  "alert_key a \<le> alert_key b \<longleftrightarrow>
     level_order (level a) < level_order (level b) \<or>
     level_order (level a) = level_order (level b) \<and> impact_monthly b \<le> impact_monthly a"
  by (auto simp: alert_key_def)

lemma rank_three_alerts:
  "rank_alerts three_alerts =
     Inr [sample_enriched ''beibei-spia-2'' (JStr ''red'') 400,
          sample_enriched ''beibei-spia-3'' (JStr ''yellow'') 400,
          sample_enriched ''beibei-spia-1'' (JStr ''green'') 400]"
  by (simp add: rank_alerts_def three_alerts_def sample_enriched_def alert_key_def
        level_order_def)

text \<open>A level that is a list cannot be looked up in \<^verbatim>\<open>order\<close>: the sort raises.\<close>

lemma rank_alerts_unhashable_level:
  "rank_alerts [sample_enriched ''beibei-spia-1'' (JList []) 400] = Inl TypeError"
  by (simp add: rank_alerts_def sample_enriched_def)

text \<open>
  C3. The ranking returns a list whenever every level is hashable, and every list \<open>ys\<close>
  it returns is a rearrangement of the input in which, for positions \<open>i < j\<close>: no yellow or
  green alert stands before a red one (the levels are in the order red, yellow, green,
  anything else); alerts of the same level have non-increasing \<open>impact_monthly\<close>; nothing
  with a known level follows an alert with an unrecognized one; and the alerts that share
  a sort key stand in their original relative order.
\<close>

theorem rank_alerts_sorted_stable:
  "(list_all (\<lambda>a. hashable (level a)) xs \<longrightarrow> (\<exists>ys. rank_alerts xs = Inr ys)) \<and>
   (\<forall>ys. rank_alerts xs = Inr ys \<longrightarrow>
      mset ys = mset xs \<and>
      (\<forall>i j. i < j \<and> j < length ys \<longrightarrow>
         (level (ys ! i) = JStr ''yellow'' \<or> level (ys ! i) = JStr ''green'' \<longrightarrow>
            level (ys ! j) \<noteq> JStr ''red'') \<and>
         level_order (level (ys ! i)) \<le> level_order (level (ys ! j)) \<and>
         (level (ys ! i) = level (ys ! j) \<longrightarrow>
            impact_monthly (ys ! j) \<le> impact_monthly (ys ! i)) \<and>
         (\<not> known_level (level (ys ! i)) \<longrightarrow> \<not> known_level (level (ys ! j)))) \<and>
      (\<forall>k. filter (\<lambda>a. alert_key a = k) ys = filter (\<lambda>a. alert_key a = k) xs))"
proof (intro conjI allI impI)
  assume "list_all (\<lambda>a. hashable (level a)) xs"
  then show "\<exists>ys. rank_alerts xs = Inr ys" by (simp add: rank_alerts_Inr)
next
  fix ys assume "rank_alerts xs = Inr ys"
  then show "mset ys = mset xs" by (simp add: rank_alerts_Inr)
next
  fix ys k assume "rank_alerts xs = Inr ys"
  then show "filter (\<lambda>a. alert_key a = k) ys = filter (\<lambda>a. alert_key a = k) xs"
    by (simp add: rank_alerts_Inr sort_key_stable)
next
  fix ys i j
  assume r: "rank_alerts xs = Inr ys" and ij: "i < j \<and> j < length ys"
  then have le: "alert_key (ys ! i) \<le> alert_key (ys ! j)"
    by (simp add: rank_alerts_Inr sort_key_nth_mono)
  then show ord: "level_order (level (ys ! i)) \<le> level_order (level (ys ! j))"
    by (auto simp: alert_key_le)
  {
    assume "level (ys ! i) = JStr ''yellow'' \<or> level (ys ! i) = JStr ''green''"
    then have "0 < level_order (level (ys ! i))" by (auto simp: level_order_def)
    with ord have "level_order (level (ys ! j)) \<noteq> 0" by simp
    then show "level (ys ! j) \<noteq> JStr ''red''" by (simp add: level_order_red)
  }
  {
    assume "level (ys ! i) = level (ys ! j)"
    with le show "impact_monthly (ys ! j) \<le> impact_monthly (ys ! i)"
      by (simp add: alert_key_le)
  }
  {
    assume "\<not> known_level (level (ys ! i))"
    then have "level_order (level (ys ! i)) = 3" by (simp add: level_order_unknown)
    with ord level_order_le_3 [of "level (ys ! j)"] have "level_order (level (ys ! j)) = 3"
      by simp
    then show "\<not> known_level (level (ys ! j))" by (simp add: level_order_unknown)
  }
qed

theorem rank_alerts_sorted_stable_witness:
  "list_all (\<lambda>a. hashable (level a)) three_alerts \<and>
   (\<exists>ys. rank_alerts three_alerts = Inr ys \<and>
         map level ys = [JStr ''red'', JStr ''yellow'', JStr ''green''] \<and>
         mset ys = mset three_alerts)"
proof -
  have h: "list_all (\<lambda>a. hashable (level a)) three_alerts"
    by (simp add: three_alerts_def sample_enriched_def)
  from rank_alerts_sorted_stable [of three_alerts] h obtain ys where
    ys: "rank_alerts three_alerts = Inr ys" and m: "mset ys = mset three_alerts" by blast
  from ys have l: "map level ys = [JStr ''red'', JStr ''yellow'', JStr ''green'']"
    by (auto simp: rank_three_alerts sample_enriched_def)
  show ?thesis
  proof (intro conjI exI)
    show "list_all (\<lambda>a. hashable (level a)) three_alerts" by (rule h)
    show "rank_alerts three_alerts = Inr ys" by (rule ys)
    show "map level ys = [JStr ''red'', JStr ''yellow'', JStr ''green'']" by (rule l)
    show "mset ys = mset three_alerts" by (rule m)
  qed
qed



section \<open>Properties of the source resolver\<close>

lemma max_from_total:
  "list_all (\<lambda>f. mt f \<noteq> None) fs \<Longrightarrow> \<exists>l. max_from mt best bk fs = Inr l"
  by (induction fs arbitrary: best bk) auto

lemma max_from_max:
  assumes "max_from mt best bk fs = Inr l" and "mt best = Some bk"
  shows "l \<in> set (best # fs) \<and>
         (\<exists>k. mt l = Some k \<and> bk \<le> k \<and> (\<forall>g\<in>set fs. \<exists>kg. mt g = Some kg \<and> kg \<le> k))"
  using assms
proof (induction fs arbitrary: best bk)
  case Nil
  then show ?case by simp
next
  case (Cons f fs)
  from Cons.prems(1) obtain kf where kf: "mt f = Some kf"
    by (cases "mt f") simp_all
  show ?case
  proof (cases "bk < kf")
    case True
    with Cons.prems(1) kf have "max_from mt f kf fs = Inr l" by simp
    from Cons.IH [OF this kf] True kf show ?thesis by fastforce
  next
    case False
    with Cons.prems(1) kf have "max_from mt best bk fs = Inr l" by simp
    from Cons.IH [OF this Cons.prems(2)] False kf show ?thesis by fastforce
  qed
qed

lemma find_latest_report_empty:
  "matching_files w agent_id = [] \<Longrightarrow>
     fst (find_latest_report w cache agent_id) = py_get (load_sample_reports w cache) agent_id JNull"
  by (simp add: find_latest_report_def sample_for_def Let_def)

lemma find_latest_report_nonempty:
  assumes "matching_files w agent_id \<noteq> []"
    and "fst (find_latest_report w cache agent_id) = Inr doc"
  shows "\<exists>latest k. latest \<in> set (matching_files w agent_id) \<and> getmtime w latest = Some k \<and>
           (\<forall>g\<in>set (matching_files w agent_id). \<exists>kg. getmtime w g = Some kg \<and> kg \<le> k) \<and>
           (read_json w latest = Some doc \<or>
            read_json w latest = None \<and>
              py_get (load_sample_reports w cache) agent_id JNull = Inr doc)"
proof -
  from assms(1) obtain f fs where files: "matching_files w agent_id = f # fs"
    by (cases "matching_files w agent_id") simp_all
  from assms(2) files obtain k where k: "getmtime w f = Some k"
    by (cases "getmtime w f") (simp_all add: find_latest_report_def)
  from assms(2) files k obtain latest where l: "max_from (getmtime w) f k fs = Inr latest"
    by (cases "max_from (getmtime w) f k fs") (simp_all add: find_latest_report_def)
  from max_from_max [OF l k] obtain kl where
    mem: "latest \<in> set (f # fs)" and kl: "getmtime w latest = Some kl" and "k \<le> kl"
    and rest: "\<forall>g\<in>set fs. \<exists>kg. getmtime w g = Some kg \<and> kg \<le> kl"
    by blast
  with k have all: "\<forall>g\<in>set (f # fs). \<exists>kg. getmtime w g = Some kg \<and> kg \<le> kl" by simp
  have "read_json w latest = Some doc \<or>
        read_json w latest = None \<and> py_get (load_sample_reports w cache) agent_id JNull = Inr doc"
    using assms(2) files k l
    by (cases "read_json w latest") (simp_all add: find_latest_report_def sample_for_def Let_def)
  with mem kl all files show ?thesis by auto
qed

lemma find_latest_report_total:
  assumes "list_all (\<lambda>f. getmtime w f \<noteq> None) (matching_files w agent_id)"
    and "is_dict (load_sample_reports w cache)"
  shows "\<exists>doc. fst (find_latest_report w cache agent_id) = Inr doc"
proof -
  from assms(2) obtain s where s: "load_sample_reports w cache = JObj s"
    by (cases "load_sample_reports w cache") simp_all
  show ?thesis
  proof (cases "matching_files w agent_id")
    case Nil
    then show ?thesis using s by (simp add: find_latest_report_empty py_get_def)
  next
    case (Cons f fs)
    with assms(1) obtain k where k: "getmtime w f = Some k" by auto
    from assms(1) Cons have "list_all (\<lambda>f. getmtime w f \<noteq> None) fs" by simp
    from max_from_total [OF this] obtain l where l: "max_from (getmtime w) f k fs = Inr l"
      by blast
    show ?thesis using Cons k l s
      by (cases "read_json w l")
         (simp_all add: find_latest_report_def sample_for_def Let_def py_get_def)
  qed
qed

lemma demo_fs_zona: "matching_files demo_fs ''zona'' =
    [''/reports/zona-2026-01-31.json'', ''/reports/zona-2026-02-01.json'']"
  by (simp add: matching_files_def search_patterns_def demo_fs_def)

lemma demo_fs_latest:
  "find_latest_report demo_fs JNull ''zona'' =
     (Inr (JObj [(''date'', JStr ''2026-02-01''), (''severity'', JStr ''red'')]), JNull)"
  by (simp add: find_latest_report_def demo_fs_zona) (simp add: demo_fs_def)

lemma demo_fs_sample:
  "find_latest_report demo_fs JNull ''spia'' =
     (Inr (JObj [(''date'', JStr ''2026-01-15''), (''severity'', JStr ''green'')]),
      JObj [(''spia'', JObj [(''date'', JStr ''2026-01-15''), (''severity'', JStr ''green'')])])"
  by (simp add: find_latest_report_def matching_files_def search_patterns_def sample_for_def
        load_sample_reports_def py_get_def dict_get_def demo_fs_def)

lemma demo_fs_absent:
  "fst (find_latest_report demo_fs JNull ''marco'') = Inr JNull"
  by (simp add: find_latest_report_def matching_files_def search_patterns_def sample_for_def
        load_sample_reports_def py_get_def dict_get_def demo_fs_def)

text \<open>
  C6. \<^verbatim>\<open>find_latest_report\<close> never consults the remote store. Every document it returns
  is: when no local file matches the agent's patterns, the agent's entry of the bundled
  sample document; otherwise the parsed content of a matching file whose modification time
  no other matching file exceeds, or, when that file cannot be read or parsed, again the
  agent's sample entry. The sample entry is \<^verbatim>\<open>None\<close> (\<open>JNull\<close>) when the samples have none
  for the agent. A document is returned whenever the modification times of the matching
  files can be read and the sample document is a dict.
\<close>

theorem latest_report_local_then_sample:
  "(list_all (\<lambda>f. getmtime w f \<noteq> None) (matching_files w agent_id) \<and>
    is_dict (load_sample_reports w cache) \<longrightarrow>
      (\<exists>doc. fst (find_latest_report w cache agent_id) = Inr doc)) \<and>
   (\<forall>doc. fst (find_latest_report w cache agent_id) = Inr doc \<longrightarrow>
      (matching_files w agent_id = [] \<longrightarrow>
         py_get (load_sample_reports w cache) agent_id JNull = Inr doc) \<and>
      (matching_files w agent_id \<noteq> [] \<longrightarrow>
         (\<exists>latest k. latest \<in> set (matching_files w agent_id) \<and>
            getmtime w latest = Some k \<and>
            (\<forall>g\<in>set (matching_files w agent_id). \<exists>kg. getmtime w g = Some kg \<and> kg \<le> k) \<and>
            (read_json w latest = Some doc \<or>
             read_json w latest = None \<and>
               py_get (load_sample_reports w cache) agent_id JNull = Inr doc))) \<and>
      (\<forall>s. py_get (load_sample_reports w cache) agent_id JNull = Inr doc \<and>
           load_sample_reports w cache = JObj s \<and> map_of s agent_id = None \<longrightarrow>
           doc = JNull))"
proof (intro conjI allI impI)
  assume "list_all (\<lambda>f. getmtime w f \<noteq> None) (matching_files w agent_id) \<and>
    is_dict (load_sample_reports w cache)"
  then show "\<exists>doc. fst (find_latest_report w cache agent_id) = Inr doc"
    by (simp add: find_latest_report_total)
next
  fix doc
  assume "fst (find_latest_report w cache agent_id) = Inr doc"
    and "matching_files w agent_id = []"
  then show "py_get (load_sample_reports w cache) agent_id JNull = Inr doc"
    by (simp add: find_latest_report_empty)
next
  fix doc
  assume "fst (find_latest_report w cache agent_id) = Inr doc"
    and "matching_files w agent_id \<noteq> []"
  then show "\<exists>latest k. latest \<in> set (matching_files w agent_id) \<and>
            getmtime w latest = Some k \<and>
            (\<forall>g\<in>set (matching_files w agent_id). \<exists>kg. getmtime w g = Some kg \<and> kg \<le> k) \<and>
            (read_json w latest = Some doc \<or>
             read_json w latest = None \<and>
               py_get (load_sample_reports w cache) agent_id JNull = Inr doc)"
    by (rule find_latest_report_nonempty [rotated])
next
  fix doc s
  assume "py_get (load_sample_reports w cache) agent_id JNull = Inr doc \<and>
           load_sample_reports w cache = JObj s \<and> map_of s agent_id = None"
  then show "doc = JNull" by (auto simp: py_get_def dict_get_def)
qed

theorem latest_report_local_then_sample_witness:
  "list_all (\<lambda>f. getmtime demo_fs f \<noteq> None) (matching_files demo_fs ''zona'') \<and>
   is_dict (load_sample_reports demo_fs JNull) \<and>
   matching_files demo_fs ''zona'' \<noteq> [] \<and>
   (\<exists>doc. fst (find_latest_report demo_fs JNull ''zona'') = Inr doc \<and>
      read_json demo_fs ''/reports/zona-2026-02-01.json'' = Some doc) \<and>
   fst (find_latest_report demo_fs JNull ''spia'') =
     Inr (JObj [(''date'', JStr ''2026-01-15''), (''severity'', JStr ''green'')]) \<and>
   fst (find_latest_report demo_fs JNull ''marco'') = Inr JNull"
proof -
  have h1: "list_all (\<lambda>f. getmtime demo_fs f \<noteq> None) (matching_files demo_fs ''zona'')"
    by (simp add: demo_fs_zona) (simp add: demo_fs_def)
  have h2: "is_dict (load_sample_reports demo_fs JNull)"
    by (simp add: load_sample_reports_def demo_fs_def)
  have h3: "matching_files demo_fs ''zona'' \<noteq> []" by (simp add: demo_fs_zona)
  from latest_report_local_then_sample [of demo_fs "''zona''" JNull] h1 h2
  obtain doc where doc: "fst (find_latest_report demo_fs JNull ''zona'') = Inr doc" by blast
  then have "read_json demo_fs ''/reports/zona-2026-02-01.json'' = Some doc"
    by (simp add: demo_fs_latest) (simp add: demo_fs_def)
  with doc h1 h2 h3 demo_fs_absent show ?thesis
    by (intro conjI exI [where x = doc]) (simp_all add: demo_fs_sample)
qed



section \<open>Properties of the approval ledger\<close>

lemma make_approval_remote:
  "make_approval (st\<lparr>supabase_available := b, remote_post := p\<rparr>) data = make_approval st data"
  by (simp add: make_approval_def)

lemma load_approvals_remote:
  "load_approvals (st\<lparr>supabase_available := b, remote_post := p\<rparr>) = load_approvals st"
  by (simp add: load_approvals_def split: file_state.splits)

lemma save_approval_ok:
  assumes "load_approvals st = JList old" and "local_writable st"
  shows "save_approval st approval =
           Inr (st\<lparr>approvals_file := Parsed (JList (old @ [approval]))\<rparr>)"
  using assms by (simp add: save_approval_def)

lemma load_after_save:
  "load_approvals (st\<lparr>approvals_file := Parsed doc\<rparr>) = doc"
  by (simp add: load_approvals_def)

lemma api_fix_success:
  assumes "\<not> demo_blocked rq" and "body rq = JObj data" and "data \<noteq> []"
    and "load_approvals st = JList old" and "local_writable st"
  shows "\<exists>m. api_fix st rq =
           (Inr (200, JObj [(''success'', JBool True), (''approval'', make_approval st data)]),
            st\<lparr>approvals_file := Parsed (JList (old @ [make_approval st data]))\<rparr>, m)"
  using assms save_approval_ok [OF assms(4,5), of "make_approval st data"]
  by (simp add: api_fix_def Let_def)

lemma demo_request_open: "\<not> demo_blocked demo_request"
  by (simp add: demo_blocked_def demo_request_def)

lemma demo_store_log:
  "load_approvals demo_store =
     JList [JObj [(''alert_id'', JStr ''beibei-zona-77''), (''status'', JStr ''approved'')]]"
  by (simp add: load_approvals_def demo_store_def)

lemma demo_store_remote:
  "demo_store\<lparr>supabase_available := True, remote_post := (\<lambda>table rows. Post_raises)\<rparr> = demo_store"
  by (simp add: demo_store_def)

lemma api_fix_mirror_raises:
  assumes "\<not> demo_blocked rq" and "body rq = JObj data" and "data \<noteq> []"
    and "load_approvals st = JList old" and "local_writable st"
    and "remote_post st = (\<lambda>table rows. Post_raises)"
  shows "snd (snd (api_fix st rq)) = JNull"
  using assms save_approval_ok [OF assms(4,5), of "make_approval st data"]
  by (simp add: api_fix_def Let_def sb_upsert_def)

lemma demo_mirror_fails:
  "supabase_available demo_store \<and> snd (snd (api_fix demo_store demo_request)) = JNull"
proof
  show "supabase_available demo_store" by (simp add: demo_store_def)
  have "body demo_request = JObj [(''alert_id'', JStr ''beibei-annunci-35''),
                   (''fix_action'', JStr ''pause_campaign''),
                   (''status'', JStr ''rejected'')]"
    by (simp add: demo_request_def)
  from api_fix_mirror_raises [OF demo_request_open this _ demo_store_log]
  show "snd (snd (api_fix demo_store demo_request)) = JNull"
    by (simp add: demo_store_def)
qed

text \<open>
  C7. An approval that passes the handler's guards (not demo mode, a non-empty JSON object)
  on a store whose local log is a list and can be written is recorded whatever the remote
  side does: for every setting \<open>b\<close> of \<^verbatim>\<open>_SUPABASE_AVAILABLE\<close> and every behaviour \<open>p\<close> of
  the POST (among them the ones that always fail), the handler answers 200 with the
  approval, and afterwards the local log read by \<^verbatim>\<open>load_approvals\<close> is the old log with
  the approval appended. The mirror is attempted on the store that already holds it.
\<close>

theorem approval_kept_when_mirror_fails:
  assumes "\<not> demo_blocked rq" and "body rq = JObj data" and "data \<noteq> []"
    and "load_approvals st = JList old" and "local_writable st"
  shows "\<forall>b p. \<exists>st' m.
           api_fix (st\<lparr>supabase_available := b, remote_post := p\<rparr>) rq =
             (Inr (200, JObj [(''success'', JBool True), (''approval'', make_approval st data)]),
              st', m) \<and>
           approvals_file st' = Parsed (JList (old @ [make_approval st data])) \<and>
           load_approvals st' = JList (old @ [make_approval st data])"
proof (intro allI)
  fix b p
  let ?st = "st\<lparr>supabase_available := b, remote_post := p\<rparr>"
  have l: "load_approvals ?st = JList old" using assms(4) by (simp add: load_approvals_remote)
  have w: "local_writable ?st" using assms(5) by simp
  from api_fix_success [OF assms(1,2,3) l w] obtain m where
    "api_fix ?st rq =
       (Inr (200, JObj [(''success'', JBool True), (''approval'', make_approval ?st data)]),
        ?st\<lparr>approvals_file := Parsed (JList (old @ [make_approval ?st data]))\<rparr>, m)" ..
  then show "\<exists>st' m. api_fix ?st rq =
             (Inr (200, JObj [(''success'', JBool True), (''approval'', make_approval st data)]),
              st', m) \<and>
           approvals_file st' = Parsed (JList (old @ [make_approval st data])) \<and>
           load_approvals st' = JList (old @ [make_approval st data])"
    by (simp add: make_approval_remote load_approvals_def)
qed

theorem approval_kept_when_mirror_fails_witness:
  "\<not> demo_blocked demo_request \<and> local_writable demo_store \<and> supabase_available demo_store \<and>
   snd (snd (api_fix demo_store demo_request)) = JNull \<and>
   (\<exists>st' m approval. api_fix demo_store demo_request =
        (Inr (200, JObj [(''success'', JBool True), (''approval'', approval)]), st', m) \<and>
      load_approvals st' =
        JList [JObj [(''alert_id'', JStr ''beibei-zona-77''), (''status'', JStr ''approved'')],
               approval])"
proof -
  have w: "local_writable demo_store" and s: "supabase_available demo_store"
    by (simp_all add: demo_store_def)
  have f: "snd (snd (api_fix demo_store demo_request)) = JNull"
    by (simp add: demo_mirror_fails)
  have b: "body demo_request = JObj [(''alert_id'', JStr ''beibei-annunci-35''),
                   (''fix_action'', JStr ''pause_campaign''),
                   (''status'', JStr ''rejected'')]"
    by (simp add: demo_request_def)
  from approval_kept_when_mirror_fails [OF demo_request_open b _ demo_store_log w,
      rule_format, where b = True and p = "\<lambda>table rows. Post_raises"]
  obtain st' m where
    "api_fix demo_store demo_request =
       (Inr (200, JObj [(''success'', JBool True),
          (''approval'', make_approval demo_store [(''alert_id'', JStr ''beibei-annunci-35''),
                   (''fix_action'', JStr ''pause_campaign''),
                   (''status'', JStr ''rejected'')])]), st', m)"
    "load_approvals st' =
       JList ([JObj [(''alert_id'', JStr ''beibei-zona-77''), (''status'', JStr ''approved'')]] @
              [make_approval demo_store [(''alert_id'', JStr ''beibei-annunci-35''),
                   (''fix_action'', JStr ''pause_campaign''),
                   (''status'', JStr ''rejected'')]])"
    by (auto simp: demo_store_remote)
  then have "\<exists>st' m approval. api_fix demo_store demo_request =
        (Inr (200, JObj [(''success'', JBool True), (''approval'', approval)]), st', m) \<and>
      load_approvals st' =
        JList [JObj [(''alert_id'', JStr ''beibei-zona-77''), (''status'', JStr ''approved'')],
               approval]"
    by (intro exI conjI) simp_all
  with demo_request_open w s f show ?thesis by (intro conjI)
qed

text \<open>
  C8, as the claim states it, fails: the body \<^verbatim>\<open>{}\<close>, in which every field is missing,
  is falsy, so the guard \<^verbatim>\<open>if not data\<close> answers 400 and nothing is recorded.
\<close>

theorem empty_object_rejected:
  "api_fix demo_store empty_request =
     (Inr (400, JObj [(''error'', JStr ''No JSON body'')]), demo_store, JNull)"
  by (simp add: api_fix_def empty_request_def demo_blocked_def)

text \<open>
  C8, amended. For every request outside demo mode whose JSON body is a non-empty object
  (the local log being a list that can be written), the handler answers 200 and stores
  the record it answers with; in that record each of \<^verbatim>\<open>alert_id\<close>, \<^verbatim>\<open>fix_action\<close>,
  \<^verbatim>\<open>school\<close>, \<^verbatim>\<open>campaign\<close>, \<^verbatim>\<open>description\<close>, \<^verbatim>\<open>estimated_impact\<close> is the caller's value or
  the empty string, \<^verbatim>\<open>approved_by\<close> the caller's value or \<^verbatim>\<open>"client"\<close>, \<^verbatim>\<open>timestamp\<close> the
  caller's value or the current instant, and \<^verbatim>\<open>status\<close> is \<^verbatim>\<open>"approved"\<close> whatever the
  caller sent.
\<close>

theorem approval_defaults_and_status:
  assumes "\<not> demo_blocked rq" and "body rq = JObj data" and "data \<noteq> []"
    and "load_approvals st = JList old" and "local_writable st"
  shows "\<exists>ap st' m.
           api_fix st rq =
             (Inr (200, JObj [(''success'', JBool True), (''approval'', JObj ap)]), st', m) \<and>
           load_approvals st' = JList (old @ [JObj ap]) \<and>
           list_all (\<lambda>k. map_of ap k =
                          Some (case map_of data k of Some v \<Rightarrow> v | None \<Rightarrow> JStr ''''))
             [''alert_id'', ''fix_action'', ''school'', ''campaign'', ''description'',
              ''estimated_impact''] \<and>
           map_of ap ''approved_by'' =
             Some (case map_of data ''approved_by'' of Some v \<Rightarrow> v | None \<Rightarrow> JStr ''client'') \<and>
           map_of ap ''timestamp'' =
             Some (case map_of data ''timestamp'' of Some v \<Rightarrow> v | None \<Rightarrow> JStr (now_iso st)) \<and>
           map_of ap ''status'' = Some (JStr ''approved'')"
proof -
  from api_fix_success [OF assms] obtain m where
    r: "api_fix st rq =
         (Inr (200, JObj [(''success'', JBool True), (''approval'', make_approval st data)]),
          st\<lparr>approvals_file := Parsed (JList (old @ [make_approval st data]))\<rparr>, m)" ..
  obtain ap where ap: "make_approval st data = JObj ap"
    and f: "list_all (\<lambda>k. map_of ap k =
                          Some (case map_of data k of Some v \<Rightarrow> v | None \<Rightarrow> JStr ''''))
             [''alert_id'', ''fix_action'', ''school'', ''campaign'', ''description'',
              ''estimated_impact'']"
    and a: "map_of ap ''approved_by'' =
             Some (case map_of data ''approved_by'' of Some v \<Rightarrow> v | None \<Rightarrow> JStr ''client'')"
    and t: "map_of ap ''timestamp'' =
             Some (case map_of data ''timestamp'' of Some v \<Rightarrow> v | None \<Rightarrow> JStr (now_iso st))"
    and s: "map_of ap ''status'' = Some (JStr ''approved'')"
    by (simp add: make_approval_def dict_get_def)
  show ?thesis
  proof (intro exI conjI)
    show "api_fix st rq =
         (Inr (200, JObj [(''success'', JBool True), (''approval'', JObj ap)]),
          st\<lparr>approvals_file := Parsed (JList (old @ [JObj ap]))\<rparr>, m)"
      using r ap by simp
    show "load_approvals (st\<lparr>approvals_file := Parsed (JList (old @ [JObj ap]))\<rparr>) =
            JList (old @ [JObj ap])" by (rule load_after_save)
  qed (rule f a t s)+
qed

theorem approval_defaults_and_status_witness:
  "\<not> demo_blocked demo_request \<and> local_writable demo_store \<and>
   (\<exists>ap st' m.
      api_fix demo_store demo_request =
        (Inr (200, JObj [(''success'', JBool True), (''approval'', JObj ap)]), st', m) \<and>
      map_of ap ''alert_id'' = Some (JStr ''beibei-annunci-35'') \<and>
      map_of ap ''school'' = Some (JStr '''') \<and>
      map_of ap ''approved_by'' = Some (JStr ''client'') \<and>
      map_of ap ''timestamp'' = Some (JStr ''2026-02-01T12:00:00+00:00'') \<and>
      map_of ap ''status'' = Some (JStr ''approved''))"
proof -
  have w: "local_writable demo_store" by (simp add: demo_store_def)
  have n: "now_iso demo_store = ''2026-02-01T12:00:00+00:00''" by (simp add: demo_store_def)
  have b: "body demo_request = JObj [(''alert_id'', JStr ''beibei-annunci-35''),
                   (''fix_action'', JStr ''pause_campaign''),
                   (''status'', JStr ''rejected'')]"
    by (simp add: demo_request_def)
  from approval_defaults_and_status [OF demo_request_open b _ demo_store_log w]
  obtain ap st' m where
    "api_fix demo_store demo_request =
        (Inr (200, JObj [(''success'', JBool True), (''approval'', JObj ap)]), st', m)"
    "map_of ap ''alert_id'' = Some (JStr ''beibei-annunci-35'')"
    "map_of ap ''school'' = Some (JStr '''')"
    "map_of ap ''approved_by'' = Some (JStr ''client'')"
    "map_of ap ''timestamp'' = Some (JStr ''2026-02-01T12:00:00+00:00'')"
    "map_of ap ''status'' = Some (JStr ''approved'')"
    by (auto simp: n)
  then have "\<exists>ap st' m.
      api_fix demo_store demo_request =
        (Inr (200, JObj [(''success'', JBool True), (''approval'', JObj ap)]), st', m) \<and>
      map_of ap ''alert_id'' = Some (JStr ''beibei-annunci-35'') \<and>
      map_of ap ''school'' = Some (JStr '''') \<and>
      map_of ap ''approved_by'' = Some (JStr ''client'') \<and>
      map_of ap ''timestamp'' = Some (JStr ''2026-02-01T12:00:00+00:00'') \<and>
      map_of ap ''status'' = Some (JStr ''approved'')"
    by (intro exI conjI)
  with demo_request_open w show ?thesis by (intro conjI)
qed


end
